theory Spec2Isabelle
  imports Main "HOL-Library.Word"
begin

section \<open>Data model (internal/models)\<close>

text \<open>
  Go strings are byte sequences: a \<open>string\<close> here is the list of the bytes of the Go
  string. Go's \<open>int\<close> is taken at its 64-bit width; \<open>+\<close> on \<open>goint\<close> wraps around
  as Go's does, and \<open>sint\<close> reads the signed value.
\<close>

type_synonym goint = "64 word"

record GitUser =
  Name :: string
  Email :: string

record GitInfo =
  CommitHash :: string
  BranchName :: string
  PRNumber :: string
  RepoURL :: string
  Author :: "GitUser option"
  Committer :: "GitUser option"

record ReviewRequest =
  AIModel :: string
  AIProvider :: string
  Language :: string
  ReviewMode :: string
  GitDiff :: string
  GitInfo :: "GitInfo option"

record Position =
  Line :: goint
  Column :: goint

record Range =
  Start :: Position
  End :: Position

record Location =
  Path :: string
  Range' :: Range

record Code =
  Value :: string
  URL :: string

record Diagnostic =
  Message :: string
  Location :: Location
  Severity :: string
  Code :: Code
  Original :: string
  Suggestion :: string

record AIProviderResponse =
  Overview :: string
  Diagnostics :: "Diagnostic list"

text \<open>A Go \<open>error\<close> value, by its message.\<close>

datatype error = Errorf string

section \<open>Prompt builder (package prompt)\<close>

definition GenerateUserPrompt :: "ReviewRequest \<Rightarrow> string" where
  "GenerateUserPrompt request =
     ''Please review the following code changes:\<newline>\<newline>'' @
     (case GitInfo request of
        None \<Rightarrow> ''''
      | Some gi \<Rightarrow>
          ''**Context:**\<newline>'' @
          (if RepoURL gi \<noteq> '''' then ''- Repository: '' @ RepoURL gi @ ''\<newline>'' else '''') @
          (if BranchName gi \<noteq> '''' then ''- Branch: '' @ BranchName gi @ ''\<newline>'' else '''') @
          (if PRNumber gi \<noteq> '''' then ''- PR Number: #'' @ PRNumber gi @ ''\<newline>'' else '''') @
          ''\<newline>'') @
     ''**Git Diff:**\<newline>```diff\<newline>'' @
     GitDiff request @
     ''\<newline>```\<newline>\<newline>'' @
     ''**Review Instructions:**\<newline>'' @
     ''1. Check EVERY changed line against ALL 6 categories:\<newline>'' @
     ''   - Possible Bug\<newline>'' @
     ''   - Best Practice\<newline>'' @
     ''   - Performance\<newline>'' @
     ''   - Maintainability\<newline>'' @
     ''   - Possible Issue\<newline>'' @
     ''   - Enhancement\<newline>\<newline>'' @
     ''2. Provide specific line numbers and actionable suggestions\<newline>'' @
     ''3. Respond ONLY with valid JSON in the format specified\<newline>''"

section \<open>Provider registry (package providers)\<close>

text \<open>
  The registry is a Go map from names to providers; the provider type is left open
  (\<open>'p\<close>), as the interface \<open>AIProvider\<close> leaves it.
\<close>

record 'p Registry =
  providers :: "string \<rightharpoonup> 'p"

definition NewRegistry :: "'p Registry" where
  "NewRegistry = \<lparr>providers = Map.empty\<rparr>"

definition Register :: "'p Registry \<Rightarrow> string \<Rightarrow> 'p \<Rightarrow> 'p Registry" where
  "Register r name provider = r\<lparr>providers := (providers r)(name \<mapsto> provider)\<rparr>"

definition Get :: "'p Registry \<Rightarrow> string \<Rightarrow> error + 'p" where
  "Get r name =
     (case providers r name of
        None \<Rightarrow> Inl (Errorf (''provider '' @ [CHR 0x27] @ name @ [CHR 0x27] @ '' not found''))
      | Some provider \<Rightarrow> Inr provider)"

text \<open>
  \<open>List\<close> ranges over the map, whose iteration order Go leaves unspecified: \<open>List r names\<close>
  holds when \<open>names\<close> is a slice the call can return, every key once, in any order.
\<close>

definition List :: "'p Registry \<Rightarrow> string list \<Rightarrow> bool" where
  "List r names \<longleftrightarrow> distinct names \<and> set names = dom (providers r)"

text \<open>The registry after a sequence of registrations on a new registry.\<close>

definition registered :: "(string \<times> 'p) list \<Rightarrow> 'p Registry" where
  "registered regs = foldl (\<lambda>r (name, provider). Register r name provider) NewRegistry regs"


section \<open>Go standard library: strings, strconv, unicode/utf8\<close>

definition byte :: "char \<Rightarrow> nat" where
  "byte c = of_char c"

definition isASCII :: "char \<Rightarrow> bool" where
  "isASCII c \<longleftrightarrow> byte c < 0x80"

text \<open>
  \<open>unicode.IsSpace\<close>, on the UTF-8 bytes of a rune: the six ASCII space characters,
  U+0085 and U+00A0 (two bytes), and U+1680, U+2000 to U+200A, U+2028, U+2029, U+202F,
  U+205F and U+3000 (three bytes).
\<close>

definition asciiSpace :: "char \<Rightarrow> bool" where
  "asciiSpace c \<longleftrightarrow> c \<in> set [CHR 0x09, CHR 0x0A, CHR 0x0B, CHR 0x0C, CHR 0x0D, CHR '' '']"

definition space2 :: "char \<Rightarrow> char \<Rightarrow> bool" where
  "space2 a b \<longleftrightarrow> a = CHR 0xC2 \<and> (b = CHR 0x85 \<or> b = CHR 0xA0)"

definition space3 :: "char \<Rightarrow> char \<Rightarrow> char \<Rightarrow> bool" where
  "space3 a b c \<longleftrightarrow>
     a = CHR 0xE1 \<and> b = CHR 0x9A \<and> c = CHR 0x80
     \<or> a = CHR 0xE2 \<and> b = CHR 0x80 \<and>
         (0x80 \<le> byte c \<and> byte c \<le> 0x8A \<or> c = CHR 0xA8 \<or> c = CHR 0xA9 \<or> c = CHR 0xAF)
     \<or> a = CHR 0xE2 \<and> b = CHR 0x81 \<and> c = CHR 0x9F
     \<or> a = CHR 0xE3 \<and> b = CHR 0x80 \<and> c = CHR 0x80"

text \<open>\<open>strings.TrimSpace\<close>: leading, then trailing, white space runes are cut.\<close>

fun trimLeft :: "string \<Rightarrow> string" where
  "trimLeft (a # b # c # s) =
     (if asciiSpace a then trimLeft (b # c # s)
      else if space2 a b then trimLeft (c # s)
      else if space3 a b c then trimLeft s
      else a # b # c # s)"
| "trimLeft [a, b] =
     (if asciiSpace a then trimLeft [b] else if space2 a b then [] else [a, b])"
| "trimLeft [a] = (if asciiSpace a then [] else [a])"
| "trimLeft [] = []"

text \<open>The same from the end, on the reversed bytes: the last byte comes first.\<close>

fun trimLeftRev :: "string \<Rightarrow> string" where
  "trimLeftRev (c # b # a # s) =
     (if asciiSpace c then trimLeftRev (b # a # s)
      else if space2 b c then trimLeftRev (a # s)
      else if space3 a b c then trimLeftRev s
      else c # b # a # s)"
| "trimLeftRev [c, b] =
     (if asciiSpace c then trimLeftRev [b] else if space2 b c then [] else [c, b])"
| "trimLeftRev [c] = (if asciiSpace c then [] else [c])"
| "trimLeftRev [] = []"

definition trimRight :: "string \<Rightarrow> string" where
  "trimRight s = rev (trimLeftRev (rev s))"

definition TrimSpace :: "string \<Rightarrow> string" where
  "TrimSpace s = trimRight (trimLeft s)"

text \<open>
  \<open>strings.ToUpper\<close>: a string of ASCII bytes only has its letters \<open>a\<close> to \<open>z\<close>
  replaced (each by the byte 32 below it, which is the byte with the bit of weight 32
  cleared); any other string goes through \<open>strings.Map(unicode.ToUpper, s)\<close>, whose
  case tables are data of the Go library: that mapping is the parameter \<open>unicodeUpper\<close>.
\<close>

definition asciiUpper :: "char \<Rightarrow> char" where
  "asciiUpper c =
     (if 0x61 \<le> byte c \<and> byte c \<le> 0x7A
      then Char (digit0 c) (digit1 c) (digit2 c) (digit3 c) (digit4 c) False (digit6 c) (digit7 c)
      else c)"

definition ToUpper :: "(string \<Rightarrow> string) \<Rightarrow> string \<Rightarrow> string" where
  "ToUpper unicodeUpper s = (if list_all isASCII s then map asciiUpper s else unicodeUpper s)"

definition HasPrefix :: "string \<Rightarrow> string \<Rightarrow> bool" where
  "HasPrefix s prefix \<longleftrightarrow> take (length prefix) s = prefix"

text \<open>\<open>strings.Split\<close> for a separator of one byte.\<close>

fun Split :: "string \<Rightarrow> char \<Rightarrow> string list" where
  "Split [] sep = [[]]"
| "Split (c # s) sep =
     (if c = sep then [] # Split s sep
      else (case Split s sep of [] \<Rightarrow> [[c]] | part # parts \<Rightarrow> (c # part) # parts))"

text \<open>
  \<open>strconv.Atoi\<close>: the value and the error. A value out of the range of \<open>int\<close> is
  reported as the nearest bound, together with the range error.
\<close>

datatype NumError = ErrSyntax | ErrRange

definition isDigit :: "char \<Rightarrow> bool" where
  "isDigit c \<longleftrightarrow> 0x30 \<le> byte c \<and> byte c \<le> 0x39"

definition digitsValue :: "string \<Rightarrow> int" where
  "digitsValue ds = foldl (\<lambda>n c. 10 * n + (int (byte c) - 0x30)) 0 ds"

definition Atoi :: "string \<Rightarrow> goint \<times> NumError option" where
  "Atoi s =
     (let neg = (take 1 s = ''-'');
          ds = (if take 1 s = ''-'' \<or> take 1 s = ''+'' then drop 1 s else s)
      in if ds = [] \<or> \<not> list_all isDigit ds then (0, Some ErrSyntax)
         else if neg then
           (if 2 ^ 63 < digitsValue ds then (word_of_int (- (2 ^ 63)), Some ErrRange)
            else (word_of_int (- digitsValue ds), None))
         else
           (if 2 ^ 63 \<le> digitsValue ds then (word_of_int (2 ^ 63 - 1), Some ErrRange)
            else (word_of_int (digitsValue ds), None)))"

text \<open>
  \<open>utf8.DecodeRune\<close>, as far as the callers need it: the width of the well-formed
  multi-byte encoding at the head of the bytes, and 0 when there is none.
\<close>

definition cont :: "char \<Rightarrow> bool" where
  "cont c \<longleftrightarrow> 0x80 \<le> byte c \<and> byte c \<le> 0xBF"

definition lead2 :: "char \<Rightarrow> bool" where
  "lead2 a \<longleftrightarrow> 0xC2 \<le> byte a \<and> byte a \<le> 0xDF"

definition lead3 :: "char \<Rightarrow> char \<Rightarrow> bool" where
  "lead3 a b \<longleftrightarrow>
     byte a = 0xE0 \<and> 0xA0 \<le> byte b \<and> byte b \<le> 0xBF
     \<or> 0xE1 \<le> byte a \<and> byte a \<le> 0xEC \<and> cont b
     \<or> byte a = 0xED \<and> 0x80 \<le> byte b \<and> byte b \<le> 0x9F
     \<or> 0xEE \<le> byte a \<and> byte a \<le> 0xEF \<and> cont b"

definition lead4 :: "char \<Rightarrow> char \<Rightarrow> bool" where
  "lead4 a b \<longleftrightarrow>
     byte a = 0xF0 \<and> 0x90 \<le> byte b \<and> byte b \<le> 0xBF
     \<or> 0xF1 \<le> byte a \<and> byte a \<le> 0xF3 \<and> cont b
     \<or> byte a = 0xF4 \<and> 0x80 \<le> byte b \<and> byte b \<le> 0x8F"

fun multiByteWidth :: "string \<Rightarrow> nat" where
  "multiByteWidth (a # b # c # d # s) =
     (if lead2 a \<and> cont b then 2
      else if lead3 a b \<and> cont c then 3
      else if lead4 a b \<and> cont c \<and> cont d then 4
      else 0)"
| "multiByteWidth [a, b, c] =
     (if lead2 a \<and> cont b then 2 else if lead3 a b \<and> cont c then 3 else 0)"
| "multiByteWidth [a, b] = (if lead2 a \<and> cont b then 2 else 0)"
| "multiByteWidth s = 0"

definition runeWidth :: "string \<Rightarrow> nat" where
  "runeWidth s = (if s = [] then 0 else max 1 (multiByteWidth s))"

text \<open>\<open>utf8.EncodeRune\<close>; the replacement character U+FFFD is \<open>EF BF BD\<close>.\<close>

definition replacementChar :: string where
  "replacementChar = [CHR 0xEF, CHR 0xBF, CHR 0xBD]"

definition EncodeRune :: "nat \<Rightarrow> string" where
  "EncodeRune r =
     (if r < 0x80 then [char_of r]
      else if r < 0x800 then [char_of (0xC0 + r div 64), char_of (0x80 + r mod 64)]
      else if 0xD800 \<le> r \<and> r < 0xE000 \<or> 0x10FFFF < r then replacementChar
      else if r < 0x10000 then
        [char_of (0xE0 + r div 4096), char_of (0x80 + r div 64 mod 64), char_of (0x80 + r mod 64)]
      else
        [char_of (0xF0 + r div 262144), char_of (0x80 + r div 4096 mod 64),
         char_of (0x80 + r div 64 mod 64), char_of (0x80 + r mod 64)])"


section \<open>Go standard library: regexp\<close>

text \<open>
  The three patterns of the program use literals, character classes, \<open>*\<close>, \<open>+\<close>,
  \<open>*?\<close> and \<open>+?\<close> on a single character class, \<open>?\<close>, alternation, capturing groups and
  \<open>$\<close>. Every literal of the patterns is ASCII, and an ASCII byte never lies inside a
  multi-byte rune, so the classes are read byte by byte. \<open>\s\<close> is \<open>[\t\n\f\r ]\<close> and
  \<open>\d\<close> is \<open>[0-9]\<close>, as in RE2.
\<close>

datatype cclass =
    Byte char
  | OneOf "char list"
  | AnyChar
  | AnyNotNL
  | Space
  | NotSpace
  | Digit

definition isReSpace :: "char \<Rightarrow> bool" where
  "isReSpace c \<longleftrightarrow> c \<in> set [CHR 0x09, CHR 0x0A, CHR 0x0C, CHR 0x0D, CHR '' '']"

fun accepts :: "cclass \<Rightarrow> char \<Rightarrow> bool" where
  "accepts (Byte b) c \<longleftrightarrow> c = b"
| "accepts (OneOf bs) c \<longleftrightarrow> c \<in> set bs"
| "accepts AnyChar c \<longleftrightarrow> True"
| "accepts AnyNotNL c \<longleftrightarrow> c \<noteq> CHR 0x0A"
| "accepts Space c \<longleftrightarrow> isReSpace c"
| "accepts NotSpace c \<longleftrightarrow> \<not> isReSpace c"
| "accepts Digit c \<longleftrightarrow> c \<in> set ''0123456789''"

datatype regex =
    Empty
  | Atom cclass
  | Star cclass
  | StarLazy cclass
  | Seq regex regex
  | Alt regex regex
  | Opt regex
  | Group nat regex
  | Close
  | EndText

definition Plus :: "cclass \<Rightarrow> regex" where
  "Plus c = Seq (Atom c) (Star c)"

definition PlusLazy :: "cclass \<Rightarrow> regex" where
  "PlusLazy c = Seq (Atom c) (StarLazy c)"

fun seqs :: "regex list \<Rightarrow> regex" where
  "seqs [] = Empty"
| "seqs [r] = r"
| "seqs (r # rs) = Seq r (seqs rs)"

definition lit :: "string \<Rightarrow> regex" where
  "lit s = seqs (map (\<lambda>c. Atom (Byte c)) s)"

text \<open>A literal under the flag \<open>i\<close>: each letter, given in lower case, in both cases.\<close>

definition litFold :: "string \<Rightarrow> regex" where
  "litFold s = seqs (map (\<lambda>c. Atom (OneOf [c, asciiUpper c])) s)"

text \<open>
  The state of a match: the groups that are open, each with the bytes it has taken so
  far (last byte first), and the groups that are closed, the latest first.
\<close>

record mstate =
  opened :: "(nat \<times> string) list"
  closed :: "(nat \<times> string) list"

definition consume :: "char \<Rightarrow> mstate \<Rightarrow> mstate" where
  "consume x st = st\<lparr>opened := map (\<lambda>(g, acc). (g, x # acc)) (opened st)\<rparr>"

text \<open>The state after the bytes \<open>xs\<close>, one after the other.\<close>

fun consumeAll :: "string \<Rightarrow> mstate \<Rightarrow> mstate" where
  "consumeAll [] st = st"
| "consumeAll (x # xs) st = consumeAll xs (consume x st)"

definition openGroup :: "nat \<Rightarrow> mstate \<Rightarrow> mstate" where
  "openGroup g st = st\<lparr>opened := (g, []) # opened st\<rparr>"

definition closeGroup :: "mstate \<Rightarrow> mstate" where
  "closeGroup st =
     (case opened st of
        [] \<Rightarrow> st
      | (g, acc) # rest \<Rightarrow> \<lparr>opened = rest, closed = (g, rev acc) # closed st\<rparr>)"

fun weight :: "regex \<Rightarrow> nat" where
  "weight (Seq a b) = Suc (weight a + weight b)"
| "weight (Alt a b) = Suc (weight a + weight b)"
| "weight (Opt a) = Suc (weight a)"
| "weight (Group g a) = Suc (Suc (weight a))"
| "weight r = Suc 0"

text \<open>
  \<open>ms rs s st\<close> matches the items \<open>rs\<close>, one after the other, at the head of \<open>s\<close>, and
  returns the first match in the order a backtracking matcher tries them (the match
  Go's \<open>regexp\<close> reports): a greedy star takes a byte before it tries the rest, a lazy
  star tries the rest first, an alternation tries its left branch first.
\<close>

function ms :: "regex list \<Rightarrow> string \<Rightarrow> mstate \<Rightarrow> (mstate \<times> string) option" where
  "ms [] s st = Some (st, s)"
| "ms (Empty # rs) s st = ms rs s st"
| "ms (Atom c # rs) s st =
     (case s of
        [] \<Rightarrow> None
      | x # xs \<Rightarrow> if accepts c x then ms rs xs (consume x st) else None)"
| "ms (Star c # rs) s st =
     (case s of
        [] \<Rightarrow> ms rs s st
      | x # xs \<Rightarrow>
          if accepts c x
          then (case ms (Star c # rs) xs (consume x st) of
                  Some r \<Rightarrow> Some r
                | None \<Rightarrow> ms rs s st)
          else ms rs s st)"
| "ms (StarLazy c # rs) s st =
     (case ms rs s st of
        Some r \<Rightarrow> Some r
      | None \<Rightarrow>
          (case s of
             [] \<Rightarrow> None
           | x # xs \<Rightarrow> if accepts c x then ms (StarLazy c # rs) xs (consume x st) else None))"
| "ms (Seq a b # rs) s st = ms (a # b # rs) s st"
| "ms (Alt a b # rs) s st =
     (case ms (a # rs) s st of Some r \<Rightarrow> Some r | None \<Rightarrow> ms (b # rs) s st)"
| "ms (Opt a # rs) s st =
     (case ms (a # rs) s st of Some r \<Rightarrow> Some r | None \<Rightarrow> ms rs s st)"
| "ms (Group g a # rs) s st = ms (a # Close # rs) s (openGroup g st)"
| "ms (Close # rs) s st = ms rs s (closeGroup st)"
| "ms (EndText # rs) s st = (if s = [] then ms rs s st else None)"
  by pat_completeness auto
termination
  by (relation "measures [\<lambda>(rs, s, st). sum_list (map weight rs), \<lambda>(rs, s, st). length s]")
     auto

fun numGroups :: "regex \<Rightarrow> nat" where
  "numGroups (Seq a b) = max (numGroups a) (numGroups b)"
| "numGroups (Alt a b) = max (numGroups a) (numGroups b)"
| "numGroups (Opt a) = numGroups a"
| "numGroups (Group g a) = max g (numGroups a)"
| "numGroups r = 0"

definition submatch :: "mstate \<Rightarrow> nat \<Rightarrow> string" where
  "submatch st g = (case map_of (closed st) g of None \<Rightarrow> [] | Some sub \<Rightarrow> sub)"

text \<open>
  A match at the head of \<open>s\<close>: the matched text and the text of each group (group 0 is
  the whole match, a group that took no part is empty), and the rest of \<open>s\<close>.
\<close>

definition matchAt :: "regex \<Rightarrow> string \<Rightarrow> (string list \<times> string) option" where
  "matchAt re s =
     (case ms [Group 0 re] s \<lparr>opened = [], closed = []\<rparr> of
        None \<Rightarrow> None
      | Some (st, rest) \<Rightarrow> Some (map (submatch st) [0..<Suc (numGroups re)], rest))"

text \<open>The leftmost match: at the head of \<open>s\<close>, or else further on.\<close>

fun search :: "regex \<Rightarrow> string \<Rightarrow> (string list \<times> string) option" where
  "search re s =
     (case matchAt re s of
        Some r \<Rightarrow> Some r
      | None \<Rightarrow> (case s of [] \<Rightarrow> None | x # xs \<Rightarrow> search re xs))"

declare search.simps [simp del]

text \<open>\<open>FindStringSubmatch\<close>: \<open>nil\<close>, the empty slice, when nothing matches.\<close>

definition FindStringSubmatch :: "regex \<Rightarrow> string \<Rightarrow> string list" where
  "FindStringSubmatch re s = (case search re s of None \<Rightarrow> [] | Some (match, rest) \<Rightarrow> match)"

text \<open>
  \<open>FindAllStringSubmatch\<close> with \<open>n = -1\<close>: the successive matches, each search starting
  where the last match ended. After an empty match at the start of the search the next
  search starts one rune further, and an empty match right where the last match ended
  is dropped; \<open>prevEnd\<close> says that a match ended at the head of \<open>s\<close>.
\<close>

function allMatches :: "regex \<Rightarrow> bool \<Rightarrow> string \<Rightarrow> string list list" where
  "allMatches re prevEnd s =
     (case search re s of
        None \<Rightarrow> []
      | Some (match, rest) \<Rightarrow>
          if length rest < length s then match # allMatches re True rest
          else (if prevEnd then [] else [match]) @
               (if s = [] then [] else allMatches re False (drop (runeWidth s) s)))"
  by pat_completeness auto
termination
  by (relation "measure (\<lambda>(re, prevEnd, s). length s)") (auto simp: runeWidth_def)

declare allMatches.simps [simp del]

definition FindAllStringSubmatch :: "regex \<Rightarrow> string \<Rightarrow> string list list" where
  "FindAllStringSubmatch re s = allMatches re False s"


section \<open>Go standard library: encoding/json\<close>

subsection \<open>The scanner: bytes to tokens\<close>

datatype token =
    LBrace | RBrace | LBrack | RBrack | Colon | Comma
  | TString string
  | TNumber string
  | TTrue | TFalse | TNull

text \<open>The states of the scanner inside a number, as \<open>scanner.go\<close> names them.\<close>

datatype numstate = NNeg | N0 | N1 | NDot | NDot0 | NE | NESign | NE0

definition numStep :: "numstate \<Rightarrow> char \<Rightarrow> numstate option" where
  "numStep st c =
     (case st of
        NNeg \<Rightarrow> if c = CHR ''0'' then Some N0 else if isDigit c then Some N1 else None
      | N1 \<Rightarrow>
          if isDigit c then Some N1
          else if c = CHR ''.'' then Some NDot
          else if c = CHR ''e'' \<or> c = CHR ''E'' then Some NE
          else None
      | N0 \<Rightarrow>
          if c = CHR ''.'' then Some NDot
          else if c = CHR ''e'' \<or> c = CHR ''E'' then Some NE
          else None
      | NDot \<Rightarrow> if isDigit c then Some NDot0 else None
      | NDot0 \<Rightarrow>
          if isDigit c then Some NDot0
          else if c = CHR ''e'' \<or> c = CHR ''E'' then Some NE
          else None
      | NE \<Rightarrow>
          if c = CHR ''+'' \<or> c = CHR ''-'' then Some NESign
          else if isDigit c then Some NE0
          else None
      | NESign \<Rightarrow> if isDigit c then Some NE0 else None
      | NE0 \<Rightarrow> if isDigit c then Some NE0 else None)"

text \<open>The states in which a number may end.\<close>

definition numEnd :: "numstate \<Rightarrow> bool" where
  "numEnd st \<longleftrightarrow> st = N0 \<or> st = N1 \<or> st = NDot0 \<or> st = NE0"

definition isJSONSpace :: "char \<Rightarrow> bool" where
  "isJSONSpace c \<longleftrightarrow> c \<in> set [CHR '' '', CHR 0x09, CHR 0x0D, CHR 0x0A]"

definition hexValue :: "char \<Rightarrow> nat option" where
  "hexValue c =
     map_of (zip ''0123456789abcdefABCDEF''
       [0, 1, 2, 3, 4, 5, 6, 7, 8, 9, 10, 11, 12, 13, 14, 15, 10, 11, 12, 13, 14, 15]) c"

text \<open>Four hexadecimal digits, and \<open>getu4\<close>: the escape \<open>\uXXXX\<close> at the head.\<close>

definition hex4 :: "string \<Rightarrow> nat option" where
  "hex4 s =
     (case map hexValue s of
        [Some a, Some b, Some c, Some d] \<Rightarrow> Some (((a * 16 + b) * 16 + c) * 16 + d)
      | _ \<Rightarrow> None)"

definition getu4 :: "string \<Rightarrow> nat option" where
  "getu4 s = (if take 2 s = [CHR 0x5C, CHR ''u''] then hex4 (take 4 (drop 2 s)) else None)"

definition unescape :: "char \<Rightarrow> char option" where
  "unescape e =
     map_of [(CHR 0x22, CHR 0x22), (CHR 0x5C, CHR 0x5C), (CHR ''/'', CHR ''/''),
             (CHR ''b'', CHR 0x08), (CHR ''f'', CHR 0x0C), (CHR ''n'', CHR 0x0A),
             (CHR ''r'', CHR 0x0D), (CHR ''t'', CHR 0x09)] e"

text \<open>
  Where the scanner stands: between tokens; in a string literal, with the bytes of the
  value so far (last first) and the number of bytes of a checked multi-byte rune still to
  copy; in a number, with its state and the literal so far (last first).
\<close>

datatype lexmode = LTop | LStr string nat | LNum numstate string

text \<open>
  The value of a string literal is built as \<open>unquote\<close> builds it: escapes are replaced, a
  surrogate pair of \<open>\u\<close> escapes becomes one rune, a lone surrogate and every byte that
  is not well-formed UTF-8 become U+FFFD.
\<close>

function lex :: "lexmode \<Rightarrow> string \<Rightarrow> token list option" where
  "lex LTop [] = Some []"
| "lex LTop (c # cs) =
     (if isJSONSpace c then lex LTop cs
      else if c = CHR ''{'' then map_option (Cons LBrace) (lex LTop cs)
      else if c = CHR ''}'' then map_option (Cons RBrace) (lex LTop cs)
      else if c = CHR ''['' then map_option (Cons LBrack) (lex LTop cs)
      else if c = CHR '']'' then map_option (Cons RBrack) (lex LTop cs)
      else if c = CHR '':'' then map_option (Cons Colon) (lex LTop cs)
      else if c = CHR '','' then map_option (Cons Comma) (lex LTop cs)
      else if c = CHR 0x22 then lex (LStr [] 0) cs
      else if c = CHR ''-'' then lex (LNum NNeg [c]) cs
      else if c = CHR ''0'' then lex (LNum N0 [c]) cs
      else if isDigit c then lex (LNum N1 [c]) cs
      else if take 4 (c # cs) = ''true'' then map_option (Cons TTrue) (lex LTop (drop 3 cs))
      else if take 5 (c # cs) = ''false'' then map_option (Cons TFalse) (lex LTop (drop 4 cs))
      else if take 4 (c # cs) = ''null'' then map_option (Cons TNull) (lex LTop (drop 3 cs))
      else None)"
| "lex (LStr acc n) [] = None"
| "lex (LStr acc n) (c # cs) =
     (if 0 < n then lex (LStr (c # acc) (n - 1)) cs
      else if c = CHR 0x22 then map_option (Cons (TString (rev acc))) (lex LTop cs)
      else if c = CHR 0x5C then
        (case cs of
           [] \<Rightarrow> None
         | e # es \<Rightarrow>
             if e = CHR ''u'' then
               (case hex4 (take 4 es) of
                  None \<Rightarrow> None
                | Some r \<Rightarrow>
                    if 0xD800 \<le> r \<and> r < 0xE000 then
                      (case getu4 (drop 4 es) of
                         None \<Rightarrow> lex (LStr (rev replacementChar @ acc) 0) (drop 4 es)
                       | Some r2 \<Rightarrow>
                           if r < 0xDC00 \<and> 0xDC00 \<le> r2 \<and> r2 < 0xE000
                           then lex (LStr (rev (EncodeRune
                                  (0x10000 + (r - 0xD800) * 1024 + (r2 - 0xDC00))) @ acc) 0)
                                  (drop 10 es)
                           else lex (LStr (rev replacementChar @ acc) 0) (drop 4 es))
                    else lex (LStr (rev (EncodeRune r) @ acc) 0) (drop 4 es))
             else
               (case unescape e of
                  None \<Rightarrow> None
                | Some b \<Rightarrow> lex (LStr (b # acc) 0) es))
      else if byte c < 0x20 then None
      else if isASCII c then lex (LStr (c # acc) 0) cs
      else if multiByteWidth (c # cs) = 0 then lex (LStr (rev replacementChar @ acc) 0) cs
      else lex (LStr (c # acc) (multiByteWidth (c # cs) - 1)) cs)"
| "lex (LNum st acc) [] = (if numEnd st then Some [TNumber (rev acc)] else None)"
| "lex (LNum st acc) (c # cs) =
     (case numStep st c of
        Some st' \<Rightarrow> lex (LNum st' (c # acc)) cs
      | None \<Rightarrow>
          if numEnd st then map_option (Cons (TNumber (rev acc))) (lex LTop (c # cs))
          else None)"
  by pat_completeness auto
termination
  by (relation "measures [\<lambda>(mode, s). length s, \<lambda>(mode, s). (case mode of LNum st acc \<Rightarrow> 1 | _ \<Rightarrow> 0)]")
     auto

subsection \<open>The parser: tokens to a value\<close>

datatype json =
    JNull
  | JBool bool
  | JNumber string
  | JString string
  | JArray "json list"
  | JObject "(string \<times> json) list"

text \<open>
  An open array with its elements so far, or an open object with its members so far
  (the last first) and the key that awaits its value.
\<close>

datatype frame =
    ArrayFrame "json list"
  | ObjectFrame "(string \<times> json) list" "string option"

datatype phase =
    BeginValue
  | BeginValueOrEmpty
  | BeginStringOrEmpty
  | BeginString
  | ObjectKey
  | EndValue
  | EndTop json

definition maxNestingDepth :: nat where
  "maxNestingDepth = 10000"

definition pushValue :: "json \<Rightarrow> frame list \<Rightarrow> (frame list \<times> phase) option" where
  "pushValue v stack =
     (case stack of
        [] \<Rightarrow> Some ([], EndTop v)
      | ArrayFrame xs # st \<Rightarrow> Some (ArrayFrame (v # xs) # st, EndValue)
      | ObjectFrame kvs None # st \<Rightarrow> None
      | ObjectFrame kvs (Some k) # st \<Rightarrow> Some (ObjectFrame ((k, v) # kvs) None # st, EndValue))"

fun beginValue :: "token \<Rightarrow> frame list \<Rightarrow> (frame list \<times> phase) option" where
  "beginValue LBrace stack =
     (if maxNestingDepth \<le> length stack then None
      else Some (ObjectFrame [] None # stack, BeginStringOrEmpty))"
| "beginValue LBrack stack =
     (if maxNestingDepth \<le> length stack then None
      else Some (ArrayFrame [] # stack, BeginValueOrEmpty))"
| "beginValue (TString s) stack = pushValue (JString s) stack"
| "beginValue (TNumber n) stack = pushValue (JNumber n) stack"
| "beginValue TTrue stack = pushValue (JBool True) stack"
| "beginValue TFalse stack = pushValue (JBool False) stack"
| "beginValue TNull stack = pushValue JNull stack"
| "beginValue t stack = None"

definition endArray :: "frame list \<Rightarrow> (frame list \<times> phase) option" where
  "endArray stack =
     (case stack of ArrayFrame xs # st \<Rightarrow> pushValue (JArray (rev xs)) st | _ \<Rightarrow> None)"

definition endObject :: "frame list \<Rightarrow> (frame list \<times> phase) option" where
  "endObject stack =
     (case stack of
        ObjectFrame kvs None # st \<Rightarrow> pushValue (JObject (rev kvs)) st
      | _ \<Rightarrow> None)"

definition beginKey :: "token \<Rightarrow> frame list \<Rightarrow> (frame list \<times> phase) option" where
  "beginKey t stack =
     (case (t, stack) of
        (TString k, ObjectFrame kvs None # st) \<Rightarrow> Some (ObjectFrame kvs (Some k) # st, ObjectKey)
      | _ \<Rightarrow> None)"

fun pstep :: "frame list \<times> phase \<Rightarrow> token \<Rightarrow> (frame list \<times> phase) option" where
  "pstep (stack, BeginValue) t = beginValue t stack"
| "pstep (stack, BeginValueOrEmpty) t =
     (if t = RBrack then endArray stack else beginValue t stack)"
| "pstep (stack, BeginStringOrEmpty) t =
     (if t = RBrace then endObject stack else beginKey t stack)"
| "pstep (stack, BeginString) t = beginKey t stack"
| "pstep (stack, ObjectKey) t = (if t = Colon then Some (stack, BeginValue) else None)"
| "pstep (stack, EndValue) t =
     (case stack of
        [] \<Rightarrow> None
      | ArrayFrame xs # st \<Rightarrow>
          if t = Comma then Some (stack, BeginValue)
          else if t = RBrack then endArray stack
          else None
      | ObjectFrame kvs k # st \<Rightarrow>
          if t = Comma then Some (stack, BeginString)
          else if t = RBrace then endObject stack
          else None)"
| "pstep (stack, EndTop v) t = None"

fun psteps :: "frame list \<times> phase \<Rightarrow> token list \<Rightarrow> (frame list \<times> phase) option" where
  "psteps st [] = Some st"
| "psteps st (t # ts) = (case pstep st t of None \<Rightarrow> None | Some st' \<Rightarrow> psteps st' ts)"

text \<open>The text is one JSON value, white space around it allowed, or it is not valid.\<close>

definition parseJSON :: "string \<Rightarrow> json option" where
  "parseJSON s =
     (case lex LTop s of
        None \<Rightarrow> None
      | Some ts \<Rightarrow>
          (case psteps ([], BeginValue) ts of
             Some (stack, EndTop v) \<Rightarrow> Some v
           | _ \<Rightarrow> None))"


subsection \<open>Decoding into the struct of \<open>ParseAIResponse\<close>\<close>

text \<open>
  The anonymous struct \<open>rawResponse\<close> and the struct of its \<open>Issues\<close>; the fields carry
  the prefix \<open>raw\<close> here, since \<open>Line\<close>, \<open>Column\<close>, \<open>Message\<close> and others are fields of the
  models too.
\<close>

record rawIssue =
  rawFile :: string
  rawLine :: goint
  rawColumn :: goint
  rawSeverity :: string
  rawCategory :: string
  rawMessage :: string
  rawSuggestion :: string

record rawResponse =
  rawOverview :: string
  rawIssues :: "rawIssue list"

definition zeroIssue :: rawIssue where
  "zeroIssue =
     \<lparr>rawFile = [], rawLine = 0, rawColumn = 0, rawSeverity = [], rawCategory = [],
      rawMessage = [], rawSuggestion = []\<rparr>"

definition zeroResponse :: rawResponse where
  "zeroResponse = \<lparr>rawOverview = [], rawIssues = []\<rparr>"

text \<open>
  A key names a field when they are equal under Unicode simple case folding. The field
  names are ASCII letters: a letter of the key matches in either case, and the runes
  U+017F and U+212A match \<open>s\<close> and \<open>k\<close>. The field name comes first.
\<close>

fun equalFold :: "string \<Rightarrow> string \<Rightarrow> bool" where
  "equalFold [] key \<longleftrightarrow> key = []"
| "equalFold (f # fs) key \<longleftrightarrow>
     (case key of
        [] \<Rightarrow> False
      | c # cs \<Rightarrow>
          if isASCII c then asciiUpper c = asciiUpper f \<and> equalFold fs cs
          else if asciiUpper f = CHR ''S'' \<and> take 2 key = [CHR 0xC5, CHR 0xBF]
            then equalFold fs (drop 2 key)
          else if asciiUpper f = CHR ''K'' \<and> take 3 key = [CHR 0xE2, CHR 0x84, CHR 0xAA]
            then equalFold fs (drop 3 key)
          else False)"

declare equalFold.simps [simp del]

text \<open>
  A JSON value into a field that holds \<open>cur\<close>: \<open>null\<close> leaves the field as it is, a value
  of another kind is a type error (\<open>None\<close>). A number fits an \<open>int\<close> when its literal is
  an integer literal within the 64 bits.
\<close>

definition decodeString :: "json \<Rightarrow> string \<Rightarrow> string option" where
  "decodeString v cur =
     (case v of JString s \<Rightarrow> Some s | JNull \<Rightarrow> Some cur | _ \<Rightarrow> None)"

definition intLiteral :: "string \<Rightarrow> int option" where
  "intLiteral n =
     (if take 1 n = ''-'' then
        (if drop 1 n \<noteq> [] \<and> list_all isDigit (drop 1 n)
         then Some (- digitsValue (drop 1 n)) else None)
      else if n \<noteq> [] \<and> list_all isDigit n then Some (digitsValue n)
      else None)"

definition decodeInt :: "json \<Rightarrow> goint \<Rightarrow> goint option" where
  "decodeInt v cur =
     (case v of
        JNumber n \<Rightarrow>
          (case intLiteral n of
             None \<Rightarrow> None
           | Some i \<Rightarrow> if - (2 ^ 63) \<le> i \<and> i < 2 ^ 63 then Some (word_of_int i) else None)
      | JNull \<Rightarrow> Some cur
      | _ \<Rightarrow> None)"

text \<open>
  The members of an object are decoded in their order, each into the field its key
  names; a key that names no field is skipped, a later member overrides an earlier one.
\<close>

fun decodeMembers :: "('r \<Rightarrow> string \<Rightarrow> json \<Rightarrow> 'r option) \<Rightarrow> 'r \<Rightarrow> (string \<times> json) list \<Rightarrow> 'r option" where
  "decodeMembers field r [] = Some r"
| "decodeMembers field r ((k, v) # kvs) =
     (case field r k v of None \<Rightarrow> None | Some r' \<Rightarrow> decodeMembers field r' kvs)"

definition issueField :: "rawIssue \<Rightarrow> string \<Rightarrow> json \<Rightarrow> rawIssue option" where
  "issueField i k v =
     (if equalFold ''file'' k
        then map_option (\<lambda>x. i\<lparr>rawFile := x\<rparr>) (decodeString v (rawFile i))
      else if equalFold ''line'' k
        then map_option (\<lambda>x. i\<lparr>rawLine := x\<rparr>) (decodeInt v (rawLine i))
      else if equalFold ''column'' k
        then map_option (\<lambda>x. i\<lparr>rawColumn := x\<rparr>) (decodeInt v (rawColumn i))
      else if equalFold ''severity'' k
        then map_option (\<lambda>x. i\<lparr>rawSeverity := x\<rparr>) (decodeString v (rawSeverity i))
      else if equalFold ''category'' k
        then map_option (\<lambda>x. i\<lparr>rawCategory := x\<rparr>) (decodeString v (rawCategory i))
      else if equalFold ''message'' k
        then map_option (\<lambda>x. i\<lparr>rawMessage := x\<rparr>) (decodeString v (rawMessage i))
      else if equalFold ''suggestion'' k
        then map_option (\<lambda>x. i\<lparr>rawSuggestion := x\<rparr>) (decodeString v (rawSuggestion i))
      else Some i)"

text \<open>
  An element of a JSON array is decoded into the element \<open>cur\<close> that the slice holds at
  the index: an object sets the fields that its members name and leaves the others,
  \<open>null\<close> leaves the element as it is, a value of another kind is a type error.
\<close>

definition decodeIssue :: "json \<Rightarrow> rawIssue \<Rightarrow> rawIssue option" where
  "decodeIssue v cur =
     (case v of
        JObject kvs \<Rightarrow> decodeMembers issueField cur kvs
      | JNull \<Rightarrow> Some cur
      | _ \<Rightarrow> None)"

text \<open>
  The loop of the array decoder over the elements of the array, \<open>i\<close> the index of the
  next. \<open>backing\<close> is the backing array of the slice as far as elements have been written
  to it; the rest of its capacity is zero, and so is the room that growing adds. The
  slice is extended to the index and the element decoded in place, nothing is cleared:
  an element that an earlier array has left at the index, within the length of the slice
  or beyond it, is decoded onto.
\<close>

fun decodeIssues :: "json list \<Rightarrow> nat \<Rightarrow> rawIssue list \<Rightarrow> rawIssue list option" where
  "decodeIssues [] i backing = Some backing"
| "decodeIssues (v # vs) i backing =
     (case decodeIssue v (if i < length backing then backing ! i else zeroIssue) of
        None \<Rightarrow> None
      | Some e \<Rightarrow>
          decodeIssues vs (i + 1)
            (if i < length backing then backing[i := e] else backing @ [e]))"

text \<open>
  A member of the object is decoded into the field its key names. The struct comes with
  the backing array of its slice \<open>Issues\<close>: an array is decoded onto that array from the
  index 0 and the slice is cut to the number of its elements; the empty array gives a
  new empty slice, and \<open>null\<close> gives \<open>nil\<close>. So a second member \<open>issues\<close> in one object
  is decoded onto the elements that the first has left.
\<close>

definition responseField ::
  "rawResponse \<times> rawIssue list \<Rightarrow> string \<Rightarrow> json \<Rightarrow> (rawResponse \<times> rawIssue list) option" where
  "responseField st k v =
     (case st of
        (r, backing) \<Rightarrow>
          if equalFold ''overview'' k
            then map_option (\<lambda>x. (r\<lparr>rawOverview := x\<rparr>, backing))
                   (decodeString v (rawOverview r))
          else if equalFold ''issues'' k
            then (case v of
                    JArray vs \<Rightarrow>
                      (case decodeIssues vs 0 backing of
                         None \<Rightarrow> None
                       | Some backing' \<Rightarrow>
                           if vs = [] then Some (r\<lparr>rawIssues := []\<rparr>, [])
                           else Some (r\<lparr>rawIssues := take (length vs) backing'\<rparr>, backing'))
                  | JNull \<Rightarrow> Some (r\<lparr>rawIssues := []\<rparr>, [])
                  | _ \<Rightarrow> None)
          else Some st)"

datatype jsonError = SyntaxError | UnmarshalTypeError

text \<open>
  \<open>json.Unmarshal\<close> into a zero \<open>rawResponse\<close>, whose slice is \<open>nil\<close>: a syntax error when
  the text is not one JSON value, a type error when a value does not fit its field.
\<close>

definition Unmarshal :: "string \<Rightarrow> jsonError + rawResponse" where
  "Unmarshal s =
     (case parseJSON s of
        None \<Rightarrow> Inl SyntaxError
      | Some (JObject kvs) \<Rightarrow>
          (case decodeMembers responseField (zeroResponse, []) kvs of
             None \<Rightarrow> Inl UnmarshalTypeError
           | Some (r, backing) \<Rightarrow> Inr r)
      | Some JNull \<Rightarrow> Inr zeroResponse
      | Some v \<Rightarrow> Inl UnmarshalTypeError)"

section \<open>Response normalizer (package prompt)\<close>

definition normalizeSeverity :: "(string \<Rightarrow> string) \<Rightarrow> string \<Rightarrow> string" where
  "normalizeSeverity unicodeUpper severity =
     (let severity = ToUpper unicodeUpper (TrimSpace severity)
      in if severity = ''ERROR'' \<or> severity = ''CRITICAL'' \<or> severity = ''HIGH'' then ''ERROR''
         else if severity = ''WARNING'' \<or> severity = ''WARN'' \<or> severity = ''MEDIUM'' then ''WARNING''
         else if severity = ''INFO'' \<or> severity = ''INFORMATION'' \<or> severity = ''LOW''
                 \<or> severity = ''NOTE'' then ''INFO''
         else ''INFO'')"

text \<open>\<open>(?s)```(?:json)?\s*({.*?})\s*```\<close>\<close>

definition codeBlockRegex :: regex where
  "codeBlockRegex =
     seqs [lit ''```'', Opt (lit ''json''), Star Space,
           Group 1 (seqs [lit ''{'', StarLazy AnyChar, lit ''}'']),
           Star Space, lit ''```'']"

text \<open>\<open>(?s)({[\s\S]*"overview"[\s\S]*"issues"[\s\S]*})\<close>\<close>

definition jsonRegex :: regex where
  "jsonRegex =
     Group 1 (seqs [lit ''{'', Star AnyChar, lit (CHR 0x22 # ''overview'' @ [CHR 0x22]),
                    Star AnyChar, lit (CHR 0x22 # ''issues'' @ [CHR 0x22]),
                    Star AnyChar, lit ''}''])"

text \<open>\<open>(?i)(?:file|path):\s*([^\s]+).*?(?:line|L):\s*(\d+).*?[-:]\s*(.+?)(?:\n|$)\<close>\<close>

definition fileLineRegex :: regex where
  "fileLineRegex =
     seqs [Alt (litFold ''file'') (litFold ''path''), lit '':'', Star Space,
           Group 1 (Plus NotSpace),
           StarLazy AnyNotNL,
           Alt (litFold ''line'') (litFold ''l''), lit '':'', Star Space,
           Group 2 (Plus Digit),
           StarLazy AnyNotNL,
           Atom (OneOf ''-:''), Star Space,
           Group 3 (PlusLazy AnyNotNL),
           Alt (lit ''\<newline>'') EndText]"

definition extractJSON :: "string \<Rightarrow> string" where
  "extractJSON text =
     (let matches = FindStringSubmatch codeBlockRegex text
      in if 1 < length matches then matches ! 1
         else
           (let matches = FindStringSubmatch jsonRegex text
            in if 1 < length matches then matches ! 1
               else text))"

text \<open>The body of the loop over the matches of \<open>parseUnstructuredResponse\<close>.\<close>

definition matchDiagnostic :: "string list \<Rightarrow> Diagnostic list" where
  "matchDiagnostic match =
     (if 4 \<le> length match then
        [\<lparr>Message = TrimSpace (match ! 3),
          Location = \<lparr>Path = match ! 1,
                      Range' = \<lparr>Start = \<lparr>Line = fst (Atoi (match ! 2)), Column = 1\<rparr>,
                                End = \<lparr>Line = fst (Atoi (match ! 2)), Column = 2\<rparr>\<rparr>\<rparr>,
          Severity = ''INFO'',
          Code = \<lparr>Value = ''ai-review'', URL = []\<rparr>,
          Original = [],
          Suggestion = []\<rparr>]
      else [])"

text \<open>The loop over the lines: the first line that qualifies, trimmed, or \<open>overview\<close>.\<close>

fun firstParagraph :: "string \<Rightarrow> string list \<Rightarrow> string" where
  "firstParagraph overview [] = overview"
| "firstParagraph overview (line # lines) =
     (let line = TrimSpace line
      in if line \<noteq> [] \<and> \<not> HasPrefix line ''#'' then line
         else firstParagraph overview lines)"

definition parseUnstructuredResponse :: "string \<Rightarrow> error + AIProviderResponse" where
  "parseUnstructuredResponse text =
     (let matches = FindAllStringSubmatch fileLineRegex text;
          diagnostics = concat (map matchDiagnostic matches);
          overview = ''AI code review completed'';
          overview =
            (if length diagnostics = 0
             then firstParagraph overview (Split text (CHR 0x0A))
             else overview)
      in Inr \<lparr>Overview = overview, Diagnostics = diagnostics\<rparr>)"

text \<open>The body of the loop over the issues of \<open>ParseAIResponse\<close>.\<close>

definition issueDiagnostic :: "(string \<Rightarrow> string) \<Rightarrow> rawIssue \<Rightarrow> Diagnostic" where
  "issueDiagnostic unicodeUpper issue =
     (let severity = normalizeSeverity unicodeUpper (rawSeverity issue);
          column = rawColumn issue;
          column = (if column = 0 then 1 else column)
      in \<lparr>Message = rawMessage issue,
          Location = \<lparr>Path = rawFile issue,
                      Range' = \<lparr>Start = \<lparr>Line = rawLine issue, Column = column\<rparr>,
                                End = \<lparr>Line = rawLine issue, Column = column + 1\<rparr>\<rparr>\<rparr>,
          Severity = severity,
          Code = \<lparr>Value = rawCategory issue, URL = []\<rparr>,
          Original = [],
          Suggestion = rawSuggestion issue\<rparr>)"

definition ParseAIResponse :: "(string \<Rightarrow> string) \<Rightarrow> string \<Rightarrow> error + AIProviderResponse" where
  "ParseAIResponse unicodeUpper responseText =
     (let jsonStr = extractJSON responseText
      in case Unmarshal jsonStr of
           Inl err \<Rightarrow> parseUnstructuredResponse responseText
         | Inr rawResponse \<Rightarrow>
             Inr \<lparr>Overview = rawOverview rawResponse,
                  Diagnostics = map (issueDiagnostic unicodeUpper) (rawIssues rawResponse)\<rparr>)"


section \<open>Prompt builder: properties\<close>

lemma fourth_part_is_substring:
  "\<exists>pre post. a @ b @ c @ d @ e = pre @ d @ post"
proof -
  have "a @ b @ c @ d @ e = (a @ b @ c) @ d @ e" by simp
  then show ?thesis by blast
qed

text \<open>
  C5: the user prompt contains the diff text of the request verbatim, as a contiguous
  substring. It holds for every request; that the diff is non-empty is not needed.
\<close>

theorem GenerateUserPrompt_contains_diff:
  "\<exists>pre post. GenerateUserPrompt request = pre @ GitDiff request @ post"
  unfolding GenerateUserPrompt_def by (rule fourth_part_is_substring)

section \<open>Registry: properties\<close>

lemma providers_registered:
  "providers (registered regs) name = map_of (rev regs) name"
proof -
  have "providers (foldl (\<lambda>r (n, p). Register r n p) r0 regs) name =
        (case map_of (rev regs) name of None \<Rightarrow> providers r0 name | Some p \<Rightarrow> Some p)"
    for r0 :: "'a Registry"
    by (induction regs arbitrary: r0)
       (auto simp: Register_def map_add_def split: option.splits)
  from this [of NewRegistry] show ?thesis
    by (simp add: registered_def NewRegistry_def split: option.splits)
qed

text \<open>
  C9: on a registry built by registrations none of which used \<open>name\<close>, \<open>Get\<close> returns
  the error "provider 'name' not found" and no provider; right after
  \<open>Register r x p\<close>, \<open>Get r x\<close> returns \<open>p\<close> and no error; and after two registrations
  under distinct names on a new registry, \<open>List\<close> returns a slice (it does return one)
  and every slice it can return holds exactly those two names.
\<close>

theorem Registry_Get_List:
  "(name \<notin> fst ` set regs \<longrightarrow>
      Get (registered regs) name =
        Inl (Errorf (''provider '' @ [CHR 0x27] @ name @ [CHR 0x27] @ '' not found'')))
   \<and> Get (Register r x p) x = Inr p
   \<and> (a \<noteq> b \<longrightarrow>
        (\<exists>names. List (Register (Register NewRegistry a pa) b pb) names)
        \<and> (\<forall>names. List (Register (Register NewRegistry a pa) b pb) names \<longrightarrow>
               set names = {a, b} \<and> length names = 2))"
proof (intro conjI impI allI)
  assume "name \<notin> fst ` set regs"
  then have "map_of (rev regs) name = None"
    by (simp add: map_of_eq_None_iff)
  then show "Get (registered regs) name =
      Inl (Errorf (''provider '' @ [CHR 0x27] @ name @ [CHR 0x27] @ '' not found''))"
    by (simp add: Get_def providers_registered)
next
  show "Get (Register r x p) x = Inr p"
    by (simp add: Get_def Register_def)
next
  assume "a \<noteq> b"
  then have "List (Register (Register NewRegistry a pa) b pb) [a, b]"
    by (auto simp: List_def Register_def NewRegistry_def)
  then show "\<exists>names. List (Register (Register NewRegistry a pa) b pb) names" ..
next
  fix names
  assume "a \<noteq> b" and L: "List (Register (Register NewRegistry a pa) b pb) names"
  from L show "set names = {a, b}"
    by (auto simp: List_def Register_def NewRegistry_def)
next
  fix names
  assume ab: "a \<noteq> b" and L: "List (Register (Register NewRegistry a pa) b pb) names"
  from L have d: "distinct names" and s: "set names = {a, b}"
    by (auto simp: List_def Register_def NewRegistry_def)
  from d have "length names = card (set names)"
    by (simp add: distinct_card)
  with s ab show "length names = 2" by simp
qed

theorem Registry_Get_List_witness:
  "''y'' \<notin> fst ` set [(''x'', 1::nat)]
   \<and> Get (registered [(''x'', 1::nat)]) ''y'' = Inl (Errorf ''provider 'y' not found'')
   \<and> Get (Register (registered [(''x'', 1::nat)]) ''x'' 7) ''x'' = Inr 7
   \<and> ''google'' \<noteq> ''openai''
   \<and> List (Register (Register NewRegistry ''google'' (1::nat)) ''openai'' 2)
        [''openai'', ''google'']
   \<and> set [''openai'', ''google''] = {''google'', ''openai''}
   \<and> length [''openai'', ''google''] = 2"
  using Registry_Get_List [where name = "''y''" and regs = "[(''x'', 1::nat)]"
      and r = "registered [(''x'', 1::nat)]" and x = "''x''" and p = "7::nat"
      and a = "''google''" and b = "''openai''" and pa = "1::nat" and pb = "2::nat"]
  by (auto simp: List_def Register_def NewRegistry_def)

section \<open>Evaluation of the library models\<close>

lemmas string_eval = byte_def isASCII_def asciiSpace_def space2_def space3_def trimRight_def
  TrimSpace_def asciiUpper_def ToUpper_def HasPrefix_def isDigit_def digitsValue_def Atoi_def

lemmas regex_eval = isReSpace_def consume_def openGroup_def closeGroup_def submatch_def
  matchAt_def search.simps FindStringSubmatch_def allMatches.simps FindAllStringSubmatch_def
  Plus_def PlusLazy_def lit_def litFold_def upt_rec runeWidth_def

lemmas json_eval = equalFold.simps numStep_def numEnd_def isJSONSpace_def hexValue_def hex4_def getu4_def
  unescape_def maxNestingDepth_def pushValue_def endArray_def endObject_def beginKey_def
  parseJSON_def zeroIssue_def zeroResponse_def decodeString_def intLiteral_def decodeInt_def
  issueField_def decodeIssue_def responseField_def Unmarshal_def

lemmas prog_eval = normalizeSeverity_def codeBlockRegex_def jsonRegex_def fileLineRegex_def
  extractJSON_def matchDiagnostic_def parseUnstructuredResponse_def issueDiagnostic_def
  ParseAIResponse_def

section \<open>Response normalizer: totality\<close>

lemma parseUnstructuredResponse_returns:
  "\<exists>res. parseUnstructuredResponse text = Inr res"
  by (simp add: parseUnstructuredResponse_def Let_def)

lemma ParseAIResponse_fallback:
  "Unmarshal (extractJSON text) = Inl err \<Longrightarrow>
   ParseAIResponse U text = parseUnstructuredResponse text"
  by (simp add: ParseAIResponse_def)

lemma ParseAIResponse_structured:
  "Unmarshal (extractJSON text) = Inr raw \<Longrightarrow>
   ParseAIResponse U text =
     Inr \<lparr>Overview = rawOverview raw, Diagnostics = map (issueDiagnostic U) (rawIssues raw)\<rparr>"
  by (simp add: ParseAIResponse_def)

lemma Unmarshal_prose: "Unmarshal (extractJSON ''LGTM'') = Inl SyntaxError"
  by (simp add: string_eval regex_eval json_eval prog_eval)

lemma fallback_prose:
  "parseUnstructuredResponse ''LGTM'' = Inr \<lparr>Overview = ''LGTM'', Diagnostics = []\<rparr>"
  by (simp add: string_eval regex_eval prog_eval)

text \<open>
  C1: for every input text (and whatever the Unicode case tables are) \<open>ParseAIResponse\<close>
  returns a result and no error; when \<open>json.Unmarshal\<close> fails on the extracted text, the
  result is the one of the fallback parse \<open>parseUnstructuredResponse\<close>, which returns a
  result and no error on every text.
\<close>

theorem ParseAIResponse_never_fails:
  "(\<exists>res. ParseAIResponse U text = Inr res)
   \<and> (\<forall>err. Unmarshal (extractJSON text) = Inl err \<longrightarrow>
          ParseAIResponse U text = parseUnstructuredResponse text)
   \<and> (\<exists>res. parseUnstructuredResponse text = Inr res)"
proof (intro conjI allI impI)
  show "\<exists>res. ParseAIResponse U text = Inr res"
  proof (cases "Unmarshal (extractJSON text)")
    case (Inl err)
    then show ?thesis
      using parseUnstructuredResponse_returns [of "text"] by (simp add: ParseAIResponse_fallback)
  next
    case (Inr raw)
    then show ?thesis by (simp add: ParseAIResponse_structured)
  qed
next
  fix err
  assume "Unmarshal (extractJSON text) = Inl err"
  then show "ParseAIResponse U text = parseUnstructuredResponse text"
    by (rule ParseAIResponse_fallback)
next
  show "\<exists>res. parseUnstructuredResponse text = Inr res"
    by (rule parseUnstructuredResponse_returns)
qed

lemma Unmarshal_malformed: "Unmarshal (extractJSON ''{\"overview\": '') = Inl SyntaxError"
  by (simp add: string_eval regex_eval json_eval prog_eval)

lemma fallback_malformed:
  "parseUnstructuredResponse ''{\"overview\": '' =
     Inr \<lparr>Overview = ''{\"overview\":'', Diagnostics = []\<rparr>"
  by (simp add: string_eval regex_eval prog_eval)

lemma Unmarshal_empty_text: "Unmarshal (extractJSON []) = Inl SyntaxError"
  by (simp add: string_eval regex_eval json_eval prog_eval)

lemma fallback_empty:
  "parseUnstructuredResponse [] =
     Inr \<lparr>Overview = ''AI code review completed'', Diagnostics = []\<rparr>"
  by (simp add: string_eval regex_eval prog_eval)

theorem ParseAIResponse_never_fails_witness:
  "Unmarshal (extractJSON ''LGTM'') = Inl SyntaxError
   \<and> ParseAIResponse id ''LGTM'' = parseUnstructuredResponse ''LGTM''
   \<and> ParseAIResponse id ''LGTM'' = Inr \<lparr>Overview = ''LGTM'', Diagnostics = []\<rparr>
   \<and> Unmarshal (extractJSON ''{\"overview\": '') = Inl SyntaxError
   \<and> ParseAIResponse id ''{\"overview\": '' =
       Inr \<lparr>Overview = ''{\"overview\":'', Diagnostics = []\<rparr>
   \<and> Unmarshal (extractJSON []) = Inl SyntaxError
   \<and> ParseAIResponse id [] =
       Inr \<lparr>Overview = ''AI code review completed'', Diagnostics = []\<rparr>"
  using ParseAIResponse_never_fails [of id "''LGTM''"] Unmarshal_prose fallback_prose
    ParseAIResponse_never_fails [of id "''{\"overview\": ''"] Unmarshal_malformed
    fallback_malformed
    ParseAIResponse_never_fails [of id "[]"] Unmarshal_empty_text fallback_empty
  by simp

section \<open>Response normalizer: the overview\<close>

lemma firstParagraph_nonempty:
  "overview \<noteq> [] \<Longrightarrow> firstParagraph overview lines \<noteq> []"
  by (induction lines) (simp_all add: Let_def)

lemma fallback_overview_nonempty:
  "parseUnstructuredResponse text = Inr res \<Longrightarrow> Overview res \<noteq> []"
proof -
  have "firstParagraph ''AI code review completed'' (Split text (CHR 0x0A)) \<noteq> []"
    by (rule firstParagraph_nonempty) simp
  then show "parseUnstructuredResponse text = Inr res \<Longrightarrow> Overview res \<noteq> []"
    by (auto simp: parseUnstructuredResponse_def Let_def split: if_splits)
qed

text \<open>
  C2 does not hold as it is stated: the backend text \<open>{"overview":"","issues":[]}\<close>
  is decoded, and the result carries the empty overview that it holds.
\<close>

theorem overview_nonempty_counterexample:
  "ParseAIResponse id ''{\"overview\":\"\",\"issues\":[]}'' =
     Inr \<lparr>Overview = [], Diagnostics = []\<rparr>"
  by (simp add: string_eval regex_eval json_eval prog_eval)

text \<open>
  C2, amended: when \<open>json.Unmarshal\<close> fails on the extracted text, the result (of the
  fallback parse) has a non-empty overview; when it succeeds, the overview of the result
  is the decoded \<open>overview\<close> value as it is, empty or not.
\<close>

theorem overview_of_result:
  "(\<forall>err. Unmarshal (extractJSON text) = Inl err \<longrightarrow>
      (\<exists>res. ParseAIResponse U text = Inr res \<and> Overview res \<noteq> []))
   \<and> (\<forall>raw. Unmarshal (extractJSON text) = Inr raw \<longrightarrow>
      (\<exists>res. ParseAIResponse U text = Inr res \<and> Overview res = rawOverview raw))"
proof (intro conjI allI impI)
  fix err
  assume e: "Unmarshal (extractJSON text) = Inl err"
  obtain res where r: "parseUnstructuredResponse text = Inr res"
    using parseUnstructuredResponse_returns by blast
  from r have "Overview res \<noteq> []" by (rule fallback_overview_nonempty)
  with e r show "\<exists>res. ParseAIResponse U text = Inr res \<and> Overview res \<noteq> []"
    by (simp add: ParseAIResponse_fallback)
next
  fix raw
  assume "Unmarshal (extractJSON text) = Inr raw"
  then show "\<exists>res. ParseAIResponse U text = Inr res \<and> Overview res = rawOverview raw"
    by (simp add: ParseAIResponse_structured)
qed

lemma Unmarshal_empty_overview:
  "Unmarshal (extractJSON ''{\"overview\":\"\",\"issues\":[]}'') =
     Inr \<lparr>rawOverview = [], rawIssues = []\<rparr>"
  by (simp add: string_eval regex_eval json_eval prog_eval)

theorem overview_of_result_witness:
  "Unmarshal (extractJSON ''LGTM'') = Inl SyntaxError
   \<and> (\<exists>res. ParseAIResponse id ''LGTM'' = Inr res \<and> Overview res \<noteq> [])
   \<and> Unmarshal (extractJSON ''{\"overview\":\"\",\"issues\":[]}'') =
       Inr \<lparr>rawOverview = [], rawIssues = []\<rparr>
   \<and> (\<exists>res. ParseAIResponse id ''{\"overview\":\"\",\"issues\":[]}'' = Inr res \<and> Overview res = [])"
  using overview_of_result [of "''LGTM''" id]
    overview_of_result [of "''{\"overview\":\"\",\"issues\":[]}''" id]
    Unmarshal_prose Unmarshal_empty_overview
  by simp

section \<open>Severity normalization\<close>

lemma set_trimLeft: "set (trimLeft s) \<subseteq> set s"
  by (induction s rule: trimLeft.induct) auto

lemma set_trimLeftRev: "set (trimLeftRev s) \<subseteq> set s"
  by (induction s rule: trimLeftRev.induct) auto

lemma set_TrimSpace: "set (TrimSpace s) \<subseteq> set s"
  using set_trimLeft [of s] set_trimLeftRev [of "rev (trimLeft s)"]
  by (auto simp: TrimSpace_def trimRight_def)

lemma TrimSpace_ascii: "list_all isASCII s \<Longrightarrow> list_all isASCII (TrimSpace s)"
  using set_TrimSpace [of s] by (auto simp: list_all_iff)

lemma normalizeSeverity_ERROR: "normalizeSeverity U ''ERROR'' = ''ERROR''"
  by (simp add: normalizeSeverity_def string_eval)

lemma normalizeSeverity_WARNING: "normalizeSeverity U ''WARNING'' = ''WARNING''"
  by (simp add: normalizeSeverity_def string_eval)

lemma normalizeSeverity_INFO: "normalizeSeverity U ''INFO'' = ''INFO''"
  by (simp add: normalizeSeverity_def string_eval)

lemma normalizeSeverity_cases:
  "normalizeSeverity U s =
     (if ToUpper U (TrimSpace s) \<in> {''ERROR'', ''CRITICAL'', ''HIGH''} then ''ERROR''
      else if ToUpper U (TrimSpace s) \<in> {''WARNING'', ''WARN'', ''MEDIUM''} then ''WARNING''
      else ''INFO'')"
  by (simp add: normalizeSeverity_def Let_def)

lemma normalizeSeverity_tokens:
  "map (normalizeSeverity U)
     [''error'', ''Critical'', ''HIGH'', ''warning'', ''Warn'', ''MEDIUM'',
      ''info'', ''Information'', ''LOW'', ''note'', ''blocker'', []] =
   [''ERROR'', ''ERROR'', ''ERROR'', ''WARNING'', ''WARNING'', ''WARNING'',
    ''INFO'', ''INFO'', ''INFO'', ''INFO'', ''INFO'', ''INFO'']"
  by (simp add: normalizeSeverity_def string_eval)

text \<open>
  C3: \<open>normalizeSeverity\<close> is defined on every string. With the severity trimmed and
  put in upper case, ERROR, CRITICAL and HIGH give ERROR; WARNING, WARN and MEDIUM give
  WARNING; INFO, INFORMATION, LOW, NOTE and every other token give INFO. On a string of
  ASCII bytes the upper case is that of the letters \<open>a\<close> to \<open>z\<close>, whatever the Unicode
  tables, so the ten tokens are recognised in any case. The function is idempotent.
\<close>

theorem normalizeSeverity_total_idempotent:
  "normalizeSeverity U s =
     (if ToUpper U (TrimSpace s) \<in> {''ERROR'', ''CRITICAL'', ''HIGH''} then ''ERROR''
      else if ToUpper U (TrimSpace s) \<in> {''WARNING'', ''WARN'', ''MEDIUM''} then ''WARNING''
      else ''INFO'')
   \<and> (ToUpper U (TrimSpace s) \<in> {''INFO'', ''INFORMATION'', ''LOW'', ''NOTE''} \<longrightarrow>
        normalizeSeverity U s = ''INFO'')
   \<and> (list_all isASCII s \<longrightarrow> ToUpper U (TrimSpace s) = map asciiUpper (TrimSpace s))
   \<and> normalizeSeverity U s \<in> {''ERROR'', ''WARNING'', ''INFO''}
   \<and> normalizeSeverity U (normalizeSeverity U s) = normalizeSeverity U s
   \<and> map (normalizeSeverity U)
        [''error'', ''Critical'', ''HIGH'', ''warning'', ''Warn'', ''MEDIUM'',
         ''info'', ''Information'', ''LOW'', ''note'', ''blocker'', []] =
      [''ERROR'', ''ERROR'', ''ERROR'', ''WARNING'', ''WARNING'', ''WARNING'',
       ''INFO'', ''INFO'', ''INFO'', ''INFO'', ''INFO'', ''INFO'']"
proof (intro conjI impI)
  show "map (normalizeSeverity U)
        [''error'', ''Critical'', ''HIGH'', ''warning'', ''Warn'', ''MEDIUM'',
         ''info'', ''Information'', ''LOW'', ''note'', ''blocker'', []] =
      [''ERROR'', ''ERROR'', ''ERROR'', ''WARNING'', ''WARNING'', ''WARNING'',
       ''INFO'', ''INFO'', ''INFO'', ''INFO'', ''INFO'', ''INFO'']"
    by (rule normalizeSeverity_tokens)
  show c: "normalizeSeverity U s =
     (if ToUpper U (TrimSpace s) \<in> {''ERROR'', ''CRITICAL'', ''HIGH''} then ''ERROR''
      else if ToUpper U (TrimSpace s) \<in> {''WARNING'', ''WARN'', ''MEDIUM''} then ''WARNING''
      else ''INFO'')"
    by (rule normalizeSeverity_cases)
  show "normalizeSeverity U s = ''INFO''"
    if "ToUpper U (TrimSpace s) \<in> {''INFO'', ''INFORMATION'', ''LOW'', ''NOTE''}"
    using that by (auto simp: normalizeSeverity_cases)
  show "ToUpper U (TrimSpace s) = map asciiUpper (TrimSpace s)" if "list_all isASCII s"
    using TrimSpace_ascii [OF that] by (simp add: ToUpper_def)
  show r: "normalizeSeverity U s \<in> {''ERROR'', ''WARNING'', ''INFO''}"
    by (simp add: normalizeSeverity_cases)
  from r show "normalizeSeverity U (normalizeSeverity U s) = normalizeSeverity U s"
    using normalizeSeverity_ERROR [of U] normalizeSeverity_WARNING [of U]
      normalizeSeverity_INFO [of U]
    by auto
qed

theorem normalizeSeverity_total_idempotent_witness:
  "ToUpper id (TrimSpace '' Note '') \<in> {''INFO'', ''INFORMATION'', ''LOW'', ''NOTE''}
   \<and> list_all isASCII '' Note ''
   \<and> ToUpper id (TrimSpace '' Note '') = map asciiUpper (TrimSpace '' Note '')
   \<and> normalizeSeverity id '' Note '' = ''INFO''
   \<and> normalizeSeverity id (normalizeSeverity id '' Note '') = normalizeSeverity id '' Note ''"
  using normalizeSeverity_total_idempotent [of id "'' Note ''"]
  by (simp add: string_eval normalizeSeverity_def)

section \<open>Response normalizer: ranges of the diagnostics\<close>

lemma issueDiagnostic_range:
  "Range' (Location (issueDiagnostic U issue)) =
     \<lparr>Start = \<lparr>Line = rawLine issue,
                Column = (if rawColumn issue = 0 then 1 else rawColumn issue)\<rparr>,
      End = \<lparr>Line = rawLine issue,
              Column = (if rawColumn issue = 0 then 1 else rawColumn issue) + 1\<rparr>\<rparr>"
  by (simp add: issueDiagnostic_def Let_def)

lemma issueField_keeps_column:
  "\<not> equalFold ''column'' k \<Longrightarrow> issueField i k v = Some i' \<Longrightarrow> rawColumn i' = rawColumn i"
  by (auto simp: issueField_def split: if_splits)

lemma decodeMembers_keeps_column:
  "\<forall>(k, v) \<in> set kvs. \<not> equalFold ''column'' k \<Longrightarrow>
   decodeMembers issueField i kvs = Some i' \<Longrightarrow> rawColumn i' = rawColumn i"
proof (induction kvs arbitrary: i)
  case Nil
  then show ?case by simp
next
  case (Cons kv kvs)
  obtain k v where kv: "kv = (k, v)" by (cases kv)
  from Cons.prems(2) kv obtain j where j: "issueField i k v = Some j"
    and rest: "decodeMembers issueField j kvs = Some i'"
    by (auto split: option.splits)
  from Cons.prems(1) kv have "\<not> equalFold ''column'' k" by simp
  then have "rawColumn j = rawColumn i" using j by (rule issueField_keeps_column)
  moreover from Cons.prems(1) rest have "rawColumn i' = rawColumn j"
    by (intro Cons.IH) auto
  ultimately show ?case by simp
qed

lemma decodeIssue_keeps_column:
  "\<forall>(k, v) \<in> set kvs. \<not> equalFold ''column'' k \<Longrightarrow>
   decodeIssue (JObject kvs) cur = Some i \<Longrightarrow> rawColumn i = rawColumn cur"
  by (simp add: decodeIssue_def decodeMembers_keeps_column)

text \<open>An array decoded onto a backing array that ends at the index: every element is new.\<close>

lemma decodeIssues_new:
  "decodeIssues vs (length backing) backing = Some backing' \<Longrightarrow>
   \<exists>es. backing' = backing @ es \<and> length es = length vs
     \<and> (\<forall>j < length vs. decodeIssue (vs ! j) zeroIssue = Some (es ! j))"
proof (induction vs arbitrary: backing)
  case Nil
  then show ?case by simp
next
  case (Cons v vs)
  from Cons.prems obtain e where e: "decodeIssue v zeroIssue = Some e"
    and rest: "decodeIssues vs (length (backing @ [e])) (backing @ [e]) = Some backing'"
    by (auto split: option.splits)
  from Cons.IH [OF rest] obtain es where es: "backing' = (backing @ [e]) @ es"
    and len: "length es = length vs"
    and el: "\<forall>j < length vs. decodeIssue (vs ! j) zeroIssue = Some (es ! j)"
    by blast
  have "\<forall>j < length (v # vs). decodeIssue ((v # vs) ! j) zeroIssue = Some ((e # es) ! j)"
  proof (intro allI impI)
    fix j
    assume "j < length (v # vs)"
    then show "decodeIssue ((v # vs) ! j) zeroIssue = Some ((e # es) ! j)"
      using e el by (cases j) simp_all
  qed
  moreover have "backing' = backing @ (e # es)" using es by simp
  moreover have "length (e # es) = length (v # vs)" using len by simp
  ultimately show ?case by blast
qed

lemma equalFold_head:
  "equalFold (f # fs) key \<Longrightarrow> asciiUpper f \<noteq> CHR ''S'' \<Longrightarrow> asciiUpper f \<noteq> CHR ''K'' \<Longrightarrow>
   \<exists>c cs. key = c # cs \<and> asciiUpper c = asciiUpper f"
  by (cases key) (auto simp: equalFold.simps split: if_splits)

lemma issues_not_overview: "equalFold ''issues'' k \<Longrightarrow> \<not> equalFold ''overview'' k"
proof
  assume i: "equalFold ''issues'' k" and o: "equalFold ''overview'' k"
  have ui: "asciiUpper CHR ''i'' = CHR ''I''" and uo: "asciiUpper CHR ''o'' = CHR ''O''"
    by (simp_all add: asciiUpper_def byte_def)
  from equalFold_head [OF i] ui obtain c cs where "k = c # cs" and "asciiUpper c = CHR ''I''"
    by auto
  moreover from equalFold_head [OF o] uo obtain c' cs' where "k = c' # cs'"
    and "asciiUpper c' = CHR ''O''"
    by auto
  ultimately show False by simp
qed

lemma responseField_keeps_issues:
  "\<not> equalFold ''issues'' k \<Longrightarrow> responseField (r, backing) k v = Some (r', backing') \<Longrightarrow>
   rawIssues r' = rawIssues r \<and> backing' = backing"
  by (auto simp: responseField_def split: if_splits)

lemma decodeMembers_keeps_issues:
  "\<forall>(k, v) \<in> set kvs. \<not> equalFold ''issues'' k \<Longrightarrow>
   decodeMembers responseField (r, backing) kvs = Some (r', backing') \<Longrightarrow>
   rawIssues r' = rawIssues r \<and> backing' = backing"
proof (induction kvs arbitrary: r backing)
  case Nil
  then show ?case by simp
next
  case (Cons kv kvs)
  obtain k v where kv: "kv = (k, v)" by (cases kv)
  from Cons.prems(2) kv obtain r1 b1 where one: "responseField (r, backing) k v = Some (r1, b1)"
    and rest: "decodeMembers responseField (r1, b1) kvs = Some (r', backing')"
    by (auto split: option.splits)
  from Cons.prems(1) kv have "\<not> equalFold ''issues'' k" by simp
  then have "rawIssues r1 = rawIssues r \<and> b1 = backing"
    using one by (rule responseField_keeps_issues)
  moreover from Cons.prems(1) rest have "rawIssues r' = rawIssues r1 \<and> backing' = b1"
    by (intro Cons.IH) auto
  ultimately show ?case by simp
qed

lemma decodeMembers_append:
  "decodeMembers field r (xs @ ys) =
     (case decodeMembers field r xs of None \<Rightarrow> None | Some r' \<Rightarrow> decodeMembers field r' ys)"
  by (induction xs arbitrary: r) (auto split: option.splits)

text \<open>
  In an object with one member \<open>issues\<close>, an array, every element of the array is decoded
  into a new element.
\<close>

lemma one_issues_member:
  assumes dec: "decodeMembers responseField (zeroResponse, []) (pre @ (k, JArray vs) # post) =
                  Some (raw, backing)"
    and k: "equalFold ''issues'' k"
    and pre: "\<forall>(k', v') \<in> set pre. \<not> equalFold ''issues'' k'"
    and post: "\<forall>(k', v') \<in> set post. \<not> equalFold ''issues'' k'"
  shows "length (rawIssues raw) = length vs
         \<and> (\<forall>j < length vs. decodeIssue (vs ! j) zeroIssue = Some (rawIssues raw ! j))"
proof -
  from dec obtain r1 b1 r2 b2 where
    d1: "decodeMembers responseField (zeroResponse, []) pre = Some (r1, b1)"
    and d2: "responseField (r1, b1) k (JArray vs) = Some (r2, b2)"
    and d3: "decodeMembers responseField (r2, b2) post = Some (raw, backing)"
    by (auto simp: decodeMembers_append split: option.splits)
  from decodeMembers_keeps_issues [OF pre d1] have b1: "b1 = []" by simp
  from decodeMembers_keeps_issues [OF post d3] have r2: "rawIssues raw = rawIssues r2" by simp
  from issues_not_overview [OF k] have no: "\<not> equalFold ''overview'' k" .
  show ?thesis
  proof (cases "vs = []")
    case True
    with d2 k no b1 have "rawIssues r2 = []" by (auto simp: responseField_def)
    with True r2 show ?thesis by simp
  next
    case False
    with d2 k no b1 obtain b where b: "decodeIssues vs (length ([] :: rawIssue list)) [] = Some b"
      and "rawIssues r2 = take (length vs) b"
      by (auto simp: responseField_def split: option.splits)
    moreover from decodeIssues_new [OF b] obtain es where "b = es" "length es = length vs"
      "\<forall>j < length vs. decodeIssue (vs ! j) zeroIssue = Some (es ! j)"
      by auto
    ultimately show ?thesis using r2 by simp
  qed
qed

text \<open>
  The loop body gives an issue whose decoded column is 0 the columns 1 and 2.
\<close>

lemma issueDiagnostic_default_column:
  "rawColumn issue = 0 \<Longrightarrow>
   Range' (Location (issueDiagnostic U issue)) =
     \<lparr>Start = \<lparr>Line = rawLine issue, Column = 1\<rparr>,
      End = \<lparr>Line = rawLine issue, Column = 2\<rparr>\<rparr>"
  by (simp add: issueDiagnostic_range)

text \<open>
  When the response object has one member \<open>issues\<close>, an issue that gives no column is
  decoded with the column 0, and its diagnostic has the columns 1 and 2.
\<close>

lemma absent_column_default:
  assumes parse: "parseJSON (extractJSON text) = Some (JObject (pre @ (k, JArray vs) # post))"
    and k: "equalFold ''issues'' k"
    and pre: "\<forall>(k', v') \<in> set pre. \<not> equalFold ''issues'' k'"
    and post: "\<forall>(k', v') \<in> set post. \<not> equalFold ''issues'' k'"
    and raw: "Unmarshal (extractJSON text) = Inr raw"
    and j: "j < length vs"
    and obj: "vs ! j = JObject members"
    and members: "\<forall>(k', v') \<in> set members. \<not> equalFold ''column'' k'"
  shows "ParseAIResponse U text =
           Inr \<lparr>Overview = rawOverview raw,
                Diagnostics = map (issueDiagnostic U) (rawIssues raw)\<rparr>"
    and "j < length (rawIssues raw)"
    and "rawColumn (rawIssues raw ! j) = 0"
    and "Range' (Location (issueDiagnostic U (rawIssues raw ! j))) =
           \<lparr>Start = \<lparr>Line = rawLine (rawIssues raw ! j), Column = 1\<rparr>,
            End = \<lparr>Line = rawLine (rawIssues raw ! j), Column = 2\<rparr>\<rparr>"
proof -
  show "ParseAIResponse U text =
      Inr \<lparr>Overview = rawOverview raw, Diagnostics = map (issueDiagnostic U) (rawIssues raw)\<rparr>"
    using raw by (rule ParseAIResponse_structured)
  from raw parse obtain backing where
    "decodeMembers responseField (zeroResponse, []) (pre @ (k, JArray vs) # post) =
       Some (raw, backing)"
    by (auto simp: Unmarshal_def split: option.splits)
  from one_issues_member [OF this k pre post]
  have len: "length (rawIssues raw) = length vs"
    and el: "\<forall>j < length vs. decodeIssue (vs ! j) zeroIssue = Some (rawIssues raw ! j)"
    by simp_all
  from len j show "j < length (rawIssues raw)" by simp
  from el j obj have "decodeIssue (JObject members) zeroIssue = Some (rawIssues raw ! j)" by auto
  with members have "rawColumn (rawIssues raw ! j) = rawColumn zeroIssue"
    by (rule decodeIssue_keeps_column)
  then show zero: "rawColumn (rawIssues raw ! j) = 0" by (simp add: zeroIssue_def)
  then show "Range' (Location (issueDiagnostic U (rawIssues raw ! j))) =
      \<lparr>Start = \<lparr>Line = rawLine (rawIssues raw ! j), Column = 1\<rparr>,
       End = \<lparr>Line = rawLine (rawIssues raw ! j), Column = 2\<rparr>\<rparr>"
    by (rule issueDiagnostic_default_column)
qed

text \<open>The issue of line 42 with no column, alone in its array: from (42, 1) to (42, 2).\<close>

lemma ParseAIResponse_line_42:
  "ParseAIResponse id ''{\"overview\":\"ok\",\"issues\":[{\"line\":42}]}'' =
   Inr \<lparr>Overview = ''ok'',
        Diagnostics =
          [\<lparr>Message = [],
            Location = \<lparr>Path = [],
                        Range' = \<lparr>Start = \<lparr>Line = 42, Column = 1\<rparr>,
                                  End = \<lparr>Line = 42, Column = 2\<rparr>\<rparr>\<rparr>,
            Severity = ''INFO'',
            Code = \<lparr>Value = [], URL = []\<rparr>,
            Original = [],
            Suggestion = []\<rparr>]\<rparr>"
  by (simp add: string_eval regex_eval json_eval prog_eval)

text \<open>
  A \<open>null\<close> in a later array of issues leaves the element of the earlier array as it is.
\<close>

lemma ParseAIResponse_repeated_null:
  "ParseAIResponse id
     ''{\"overview\":\"o\",\"issues\":[{\"line\":1,\"column\":5}],\"issues\":[null]}'' =
   Inr \<lparr>Overview = ''o'',
        Diagnostics =
          [\<lparr>Message = [],
            Location = \<lparr>Path = [],
                        Range' = \<lparr>Start = \<lparr>Line = 1, Column = 5\<rparr>,
                                  End = \<lparr>Line = 1, Column = 6\<rparr>\<rparr>\<rparr>,
            Severity = ''INFO'',
            Code = \<lparr>Value = [], URL = []\<rparr>,
            Original = [],
            Suggestion = []\<rparr>]\<rparr>"
  by (simp add: string_eval regex_eval json_eval prog_eval)

text \<open>
  C4: an issue with no column gets the start column 1 and the end column 2. This fails
  when the response object repeats the member \<open>issues\<close>: the elements of the later array
  are decoded onto the elements that the earlier array has left in the slice, and an
  issue that gives no column keeps the column of the earlier element. In the response
  below the only issue of the result is that of line 2, which gives no column; its
  diagnostic has the start column 5 and the end column 6.
\<close>

theorem column_default_repeated_issues:
  "ParseAIResponse id
     ''{\"overview\":\"o\",\"issues\":[{\"line\":1,\"column\":5}],\"issues\":[{\"line\":2}]}'' =
   Inr \<lparr>Overview = ''o'',
        Diagnostics =
          [\<lparr>Message = [],
            Location = \<lparr>Path = [],
                        Range' = \<lparr>Start = \<lparr>Line = 2, Column = 5\<rparr>,
                                  End = \<lparr>Line = 2, Column = 6\<rparr>\<rparr>\<rparr>,
            Severity = ''INFO'',
            Code = \<lparr>Value = [], URL = []\<rparr>,
            Original = [],
            Suggestion = []\<rparr>]\<rparr>"
  by (simp add: string_eval regex_eval json_eval prog_eval)

lemma sint_succ:
  fixes x :: goint
  assumes "sint x \<noteq> 2 ^ 63 - 1"
  shows "sint (x + 1) = sint x + 1"
proof -
  have "sint x < 2 ^ 63" using sint_lt [of x] by simp
  moreover have "- (2 ^ 63) \<le> sint x" using sint_ge [of x] by simp
  ultimately have "- (2 ^ 63) \<le> sint x + 1 \<and> sint x + 1 < 2 ^ 63"
    using assms by simp
  then have "signed_take_bit 63 (sint x + 1) = sint x + 1"
    by (simp add: signed_take_bit_int_eq_self)
  then show ?thesis by (simp add: sint_word_ariths)
qed

lemma matchDiagnostic_range:
  "d \<in> set (matchDiagnostic match) \<Longrightarrow>
   Range' (Location d) =
     \<lparr>Start = \<lparr>Line = fst (Atoi (match ! 2)), Column = 1\<rparr>,
      End = \<lparr>Line = fst (Atoi (match ! 2)), Column = 2\<rparr>\<rparr>"
  by (auto simp: matchDiagnostic_def split: if_splits)

lemma result_ranges:
  assumes "ParseAIResponse U text = Inr res" and "d \<in> set (Diagnostics res)"
  shows "\<exists>l c. Range' (Location d) =
           \<lparr>Start = \<lparr>Line = l, Column = c\<rparr>, End = \<lparr>Line = l, Column = c + 1\<rparr>\<rparr>"
proof (cases "Unmarshal (extractJSON text)")
  case (Inl err)
  with assms(1) have "parseUnstructuredResponse text = Inr res"
    by (simp add: ParseAIResponse_fallback)
  with assms(2) obtain match where "d \<in> set (matchDiagnostic match)"
    by (auto simp: parseUnstructuredResponse_def Let_def)
  then have "Range' (Location d) =
     \<lparr>Start = \<lparr>Line = fst (Atoi (match ! 2)), Column = 1\<rparr>,
      End = \<lparr>Line = fst (Atoi (match ! 2)), Column = 1 + 1\<rparr>\<rparr>"
    by (simp add: matchDiagnostic_range)
  then show ?thesis by blast
next
  case (Inr raw)
  with assms obtain issue where "d = issueDiagnostic U issue"
    by (auto simp: ParseAIResponse_structured)
  then show ?thesis using issueDiagnostic_range [of U issue] by blast
qed

text \<open>
  C10: every diagnostic of a result of \<open>ParseAIResponse\<close>, from the structured path or
  from the fallback parse, ends on the line it starts on, and its end column is its start
  column plus 1. The sum is Go's on \<open>int\<close>: it is the next integer unless the start
  column is the greatest \<open>int\<close>. In particular an issue with a column \<open>c\<close> other than 0
  gets the range from (line, c) to (line, c + 1).
\<close>

theorem diagnostic_range_end:
  "(\<forall>res. ParseAIResponse U text = Inr res \<longrightarrow>
      (\<forall>d \<in> set (Diagnostics res).
         Line (End (Range' (Location d))) = Line (Start (Range' (Location d)))
         \<and> Column (End (Range' (Location d))) = Column (Start (Range' (Location d))) + 1
         \<and> (sint (Column (Start (Range' (Location d)))) \<noteq> 2 ^ 63 - 1 \<longrightarrow>
              sint (Column (End (Range' (Location d)))) =
              sint (Column (Start (Range' (Location d)))) + 1)))
   \<and> (rawColumn issue \<noteq> 0 \<longrightarrow>
        Range' (Location (issueDiagnostic U issue)) =
          \<lparr>Start = \<lparr>Line = rawLine issue, Column = rawColumn issue\<rparr>,
           End = \<lparr>Line = rawLine issue, Column = rawColumn issue + 1\<rparr>\<rparr>)"
proof (intro conjI allI impI ballI)
  fix res d
  assume r: "ParseAIResponse U text = Inr res" and d: "d \<in> set (Diagnostics res)"
  from result_ranges [OF r d] obtain l c where
    rg: "Range' (Location d) =
           \<lparr>Start = \<lparr>Line = l, Column = c\<rparr>, End = \<lparr>Line = l, Column = c + 1\<rparr>\<rparr>"
    by blast
  from rg show "Line (End (Range' (Location d))) = Line (Start (Range' (Location d)))"
    by simp
  from rg show "Column (End (Range' (Location d))) = Column (Start (Range' (Location d))) + 1"
    by simp
  assume "sint (Column (Start (Range' (Location d)))) \<noteq> 2 ^ 63 - 1"
  with rg show "sint (Column (End (Range' (Location d)))) =
      sint (Column (Start (Range' (Location d)))) + 1"
    by (simp add: sint_succ)
next
  assume "rawColumn issue \<noteq> 0"
  then show "Range' (Location (issueDiagnostic U issue)) =
      \<lparr>Start = \<lparr>Line = rawLine issue, Column = rawColumn issue\<rparr>,
       End = \<lparr>Line = rawLine issue, Column = rawColumn issue + 1\<rparr>\<rparr>"
    by (simp add: issueDiagnostic_range)
qed

lemma ParseAIResponse_column_7:
  "ParseAIResponse id
     ''{\"overview\":\"ok\",\"issues\":[{\"line\":3,\"column\":7}]}'' =
   Inr \<lparr>Overview = ''ok'',
        Diagnostics =
          [\<lparr>Message = [],
            Location = \<lparr>Path = [],
                        Range' = \<lparr>Start = \<lparr>Line = 3, Column = 7\<rparr>,
                                  End = \<lparr>Line = 3, Column = 8\<rparr>\<rparr>\<rparr>,
            Severity = ''INFO'',
            Code = \<lparr>Value = [], URL = []\<rparr>,
            Original = [],
            Suggestion = []\<rparr>]\<rparr>"
  by (simp add: string_eval regex_eval json_eval prog_eval)

theorem diagnostic_range_end_witness:
  "ParseAIResponse id
     ''{\"overview\":\"ok\",\"issues\":[{\"line\":3,\"column\":7}]}'' =
   Inr \<lparr>Overview = ''ok'',
        Diagnostics =
          [\<lparr>Message = [],
            Location = \<lparr>Path = [],
                        Range' = \<lparr>Start = \<lparr>Line = 3, Column = 7\<rparr>,
                                  End = \<lparr>Line = 3, Column = 8\<rparr>\<rparr>\<rparr>,
            Severity = ''INFO'',
            Code = \<lparr>Value = [], URL = []\<rparr>,
            Original = [],
            Suggestion = []\<rparr>]\<rparr>
   \<and> sint (7 :: goint) \<noteq> 2 ^ 63 - 1
   \<and> sint (8 :: goint) = sint (7 :: goint) + 1
   \<and> rawColumn (zeroIssue\<lparr>rawLine := 3, rawColumn := 7\<rparr>) \<noteq> 0
   \<and> Range' (Location (issueDiagnostic id (zeroIssue\<lparr>rawLine := 3, rawColumn := 7\<rparr>))) =
       \<lparr>Start = \<lparr>Line = 3, Column = 7\<rparr>, End = \<lparr>Line = 3, Column = 8\<rparr>\<rparr>"
  using diagnostic_range_end [of id
      "''{\"overview\":\"ok\",\"issues\":[{\"line\":3,\"column\":7}]}''"
      "zeroIssue\<lparr>rawLine := 3, rawColumn := 7\<rparr>"]
    ParseAIResponse_column_7
  by (simp add: zeroIssue_def)

section \<open>Response normalizer: the fallback parse\<close>

text \<open>
  C7: the text \<open>File: app.py Line: 10 - missing null check\<close> holds no JSON, and the
  result is that of the fallback parse: one diagnostic, of severity INFO, path
  \<open>app.py\<close>, line 10, columns 1 to 2, the category \<open>ai-review\<close>, and the message
  \<open>missing null check\<close>.
\<close>

theorem fallback_file_line_example:
  "Unmarshal (extractJSON ''File: app.py Line: 10 - missing null check'') = Inl SyntaxError
   \<and> ParseAIResponse U ''File: app.py Line: 10 - missing null check'' =
       Inr \<lparr>Overview = ''AI code review completed'',
            Diagnostics =
              [\<lparr>Message = ''missing null check'',
                Location = \<lparr>Path = ''app.py'',
                            Range' = \<lparr>Start = \<lparr>Line = 10, Column = 1\<rparr>,
                                      End = \<lparr>Line = 10, Column = 2\<rparr>\<rparr>\<rparr>,
                Severity = ''INFO'',
                Code = \<lparr>Value = ''ai-review'', URL = []\<rparr>,
                Original = [],
                Suggestion = []\<rparr>]\<rparr>"
  by (simp add: string_eval regex_eval json_eval prog_eval)

section \<open>Response normalizer: extraction of fenced JSON\<close>

lemma consumeAll_eq:
  "consumeAll xs st = st\<lparr>opened := map (\<lambda>(g, acc). (g, rev xs @ acc)) (opened st)\<rparr>"
proof (induction xs arbitrary: st)
  case Nil
  show ?case by (simp add: case_prod_beta)
next
  case (Cons x xs)
  show ?case by (simp add: Cons.IH consume_def case_prod_beta comp_def)
qed

lemma consume_eq_consumeAll: "consume x st = consumeAll [x] st"
  by simp

lemma consumeAll_append: "consumeAll ys (consumeAll xs st) = consumeAll (xs @ ys) st"
  by (induction xs arbitrary: st) simp_all

text \<open>A greedy star takes a whole run of its class when the rest then matches.\<close>

lemma ms_Star_run:
  assumes "list_all (accepts c) ws"
    and "rest = [] \<or> \<not> accepts c (hd rest)"
    and "ms rs rest (consumeAll ws st) = Some r"
  shows "ms (Star c # rs) (ws @ rest) st = Some r"
  using assms
proof (induction ws arbitrary: st)
  case Nil
  then show ?case by (cases rest) auto
next
  case (Cons w ws)
  from Cons.prems have "ms (Star c # rs) (ws @ rest) (consume w st) = Some r"
    by (intro Cons.IH) simp_all
  with Cons.prems show ?case by simp
qed

text \<open>A lazy star before a literal byte passes over bytes other than that byte.\<close>

lemma ms_StarLazy_skip:
  assumes "b \<notin> set body"
  shows "ms (StarLazy AnyChar # Atom (Byte b) # rs) (body @ rest) st =
         ms (StarLazy AnyChar # Atom (Byte b) # rs) rest (consumeAll body st)"
  using assms
  by (induction body arbitrary: st) auto

lemma codeBlockRegex_no_match:
  "CHR ''`'' \<noteq> c \<Longrightarrow> matchAt codeBlockRegex (c # s) = None"
  by (auto simp: matchAt_def codeBlockRegex_def lit_def)

lemma codeBlockRegex_search_prefix:
  "CHR ''`'' \<notin> set pre \<Longrightarrow> search codeBlockRegex (pre @ s) = search codeBlockRegex s"
proof (induction pre)
  case Nil
  show ?case by simp
next
  case (Cons c pre)
  from Cons.prems have c: "CHR ''`'' \<noteq> c" and pre: "CHR ''`'' \<notin> set pre"
    by auto
  from c have "search codeBlockRegex ((c # pre) @ s) = search codeBlockRegex (pre @ s)"
    by (subst search.simps) (simp add: codeBlockRegex_no_match)
  with Cons.IH [OF pre] show ?case by simp
qed



text \<open>A lazy star before a literal byte, at that byte: the rest is tried first.\<close>

lemma ms_StarLazy_hit:
  "ms (StarLazy c # Atom (Byte b) # rs) (b # rest) st =
     (case ms rs rest (consume b st) of
        Some r \<Rightarrow> Some r
      | None \<Rightarrow>
          if accepts c b then ms (StarLazy c # Atom (Byte b) # rs) rest (consume b st)
          else None)"
  by (simp split: option.splits)

lemmas ms_symbolic = consume_eq_consumeAll consumeAll_append ms_StarLazy_hit

lemma codeBlockRegex_match:
  assumes label: "label = ''json'' \<or> label = []"
    and ws1: "list_all isReSpace ws1"
    and ws2: "list_all isReSpace ws2"
    and body: "CHR ''}'' \<notin> set body"
  shows "matchAt codeBlockRegex
           (''```'' @ label @ ws1 @ ''{'' @ body @ ''}'' @ ws2 @ ''```'' @ post) =
         Some ([''```'' @ label @ ws1 @ ''{'' @ body @ ''}'' @ ws2 @ ''```'',
                ''{'' @ body @ ''}''], post)"
proof -
  let ?B = "Atom (Byte (CHR ''`''))"
  let ?L3 = "Seq ?B (Seq ?B ?B)"
  let ?X3 = "Seq (Star Space) ?L3"
  let ?G1 = "Group (Suc 0) (Seq (Atom (Byte (CHR ''{'')))
               (Seq (StarLazy AnyChar) (Atom (Byte (CHR ''}'')))))"
  let ?X2 = "Seq ?G1 ?X3"
  let ?X1 = "Seq (Star Space) ?X2"
  let ?J = "Seq (Atom (Byte (CHR ''j''))) (Seq (Atom (Byte (CHR ''s'')))
              (Seq (Atom (Byte (CHR ''o''))) (Atom (Byte (CHR ''n'')))))"
  let ?t2 = "CHR ''`'' # CHR ''`'' # CHR ''`'' # post"
  let ?t1 = "CHR ''{'' # body @ CHR ''}'' # ws2 @ ?t2"
  note [simp del] = ms.simps(4) ms.simps(5) consumeAll.simps(2)
  have sp1: "list_all (accepts Space) ws1" and sp2: "list_all (accepts Space) ws2"
    using ws1 ws2 by (simp_all add: list_all_iff)
  have fence: "ms [?L3, Close] ?t2 st = Some (closeGroup (consumeAll ''```'' st), post)" for st
    by (simp add: ms_symbolic)
  have closing: "ms [Star Space, ?L3, Close] (ws2 @ ?t2) st =
      Some (closeGroup (consumeAll (ws2 @ ''```'') st), post)" for st
    by (rule ms_Star_run [OF sp2]) (simp_all add: isReSpace_def fence ms_symbolic)
  have braces: "ms [?G1, ?X3, Close] ?t1 st =
      Some (closeGroup (consumeAll (ws2 @ ''```'')
              (closeGroup (consumeAll (''{'' @ body @ ''}'') (openGroup (Suc 0) st)))), post)" for st
    by (simp add: ms_StarLazy_skip [OF body] closing ms_symbolic)
  have spaces: "ms [Star Space, ?X2, Close] (ws1 @ ?t1) st =
      Some (closeGroup (consumeAll (ws2 @ ''```'')
              (closeGroup (consumeAll (''{'' @ body @ ''}'')
                 (openGroup (Suc 0) (consumeAll ws1 st))))), post)" for st
  proof (rule ms_Star_run [OF sp1])
    show "?t1 = [] \<or> \<not> accepts Space (hd ?t1)"
      by (simp add: isReSpace_def)
    show "ms [?X2, Close] ?t1 (consumeAll ws1 st) =
      Some (closeGroup (consumeAll (ws2 @ ''```'')
              (closeGroup (consumeAll (''{'' @ body @ ''}'')
                 (openGroup (Suc 0) (consumeAll ws1 st))))), post)"
      by (simp only: ms.simps(6) braces)
  qed
  have no_label: "ms (Atom (Byte (CHR ''j'')) # rs) (ws1 @ ?t1) st = None" for rs st
    using ws1 by (cases ws1) (auto simp: isReSpace_def)
  have labelled: "ms [Opt ?J, ?X1, Close] (label @ ws1 @ ?t1) st =
      Some (closeGroup (consumeAll (ws2 @ ''```'')
              (closeGroup (consumeAll (''{'' @ body @ ''}'')
                 (openGroup (Suc 0) (consumeAll (label @ ws1) st))))), post)" for st
    using label
  proof
    assume "label = ''json''"
    then show ?thesis by (simp add: spaces ms_symbolic)
  next
    assume "label = []"
    then show ?thesis
      by (simp only: append_Nil ms.simps(8) no_label option.case ms.simps(6) spaces)
  qed
  have "ms [Group 0 codeBlockRegex]
          (''```'' @ label @ ws1 @ ''{'' @ body @ ''}'' @ ws2 @ ''```'' @ post)
          \<lparr>opened = [], closed = []\<rparr> =
        ms [Opt ?J, ?X1, Close] (label @ ws1 @ ?t1)
          (consumeAll ''```'' (openGroup 0 \<lparr>opened = [], closed = []\<rparr>))"
    by (simp add: codeBlockRegex_def lit_def ms_symbolic del: ms.simps(8))
  then have "ms [Group 0 codeBlockRegex]
          (''```'' @ label @ ws1 @ ''{'' @ body @ ''}'' @ ws2 @ ''```'' @ post)
          \<lparr>opened = [], closed = []\<rparr> =
        Some (closeGroup (consumeAll (ws2 @ ''```'')
              (closeGroup (consumeAll (''{'' @ body @ ''}'')
                 (openGroup (Suc 0) (consumeAll (label @ ws1)
                    (consumeAll ''```'' (openGroup 0 \<lparr>opened = [], closed = []\<rparr>))))))), post)"
    by (simp only: labelled)
  then show ?thesis
    by (simp add: matchAt_def consumeAll_eq openGroup_def closeGroup_def submatch_def upt_rec
        codeBlockRegex_def lit_def)
qed

lemma extractJSON_code_block:
  assumes "CHR ''`'' \<notin> set pre"
    and "label = ''json'' \<or> label = []"
    and "list_all isReSpace ws1"
    and "list_all isReSpace ws2"
    and "CHR ''}'' \<notin> set body"
  shows "extractJSON (pre @ ''```'' @ label @ ws1 @ ''{'' @ body @ ''}'' @ ws2 @ ''```'' @ post) =
         ''{'' @ body @ ''}''"
proof -
  have "search codeBlockRegex
          (pre @ ''```'' @ label @ ws1 @ ''{'' @ body @ ''}'' @ ws2 @ ''```'' @ post) =
        Some ([''```'' @ label @ ws1 @ ''{'' @ body @ ''}'' @ ws2 @ ''```'',
               ''{'' @ body @ ''}''], post)"
    unfolding codeBlockRegex_search_prefix [OF assms(1)]
    by (subst search.simps) (simp only: codeBlockRegex_match [OF assms(2-5)] option.case)
  then show ?thesis
    by (simp add: extractJSON_def FindStringSubmatch_def)
qed

lemma Unmarshal_overview_x:
  "Unmarshal ''{\"overview\":\"x\",\"issues\":[]}'' = Inr \<lparr>rawOverview = ''x'', rawIssues = []\<rparr>"
  by (simp add: string_eval json_eval)

lemma ParseAIResponse_fenced_example:
  assumes "CHR ''`'' \<notin> set pre"
  shows "ParseAIResponse U
           (pre @ ''```json\<newline>{\"overview\":\"x\",\"issues\":[]}\<newline>```'' @ post) =
         Inr \<lparr>Overview = ''x'', Diagnostics = []\<rparr>"
proof -
  have "extractJSON (pre @ ''```'' @ ''json'' @ ''\<newline>'' @ ''{'' @
            ''\"overview\":\"x\",\"issues\":[]'' @ ''}'' @ ''\<newline>'' @ ''```'' @ post) =
        ''{'' @ ''\"overview\":\"x\",\"issues\":[]'' @ ''}''"
    by (rule extractJSON_code_block [OF assms]) (simp_all add: isReSpace_def)
  then have "extractJSON
        (pre @ ''```json\<newline>{\"overview\":\"x\",\"issues\":[]}\<newline>```'' @ post) =
      ''{\"overview\":\"x\",\"issues\":[]}''"
    by simp
  then have "Unmarshal (extractJSON
        (pre @ ''```json\<newline>{\"overview\":\"x\",\"issues\":[]}\<newline>```'' @ post)) =
      Inr \<lparr>rawOverview = ''x'', rawIssues = []\<rparr>"
    by (simp only: Unmarshal_overview_x)
  then show ?thesis
    by (simp add: ParseAIResponse_structured)
qed

text \<open>
  C6: \<open>extractJSON\<close> takes the fenced code block first: when the pattern of the fenced
  block matches, the result is its group, whatever the raw-JSON pattern would find. For
  a text that has, after a prefix with no backtick, a fence of three backticks, the
  label \<open>json\<close> or no label, white space, an object \<open>{...}\<close> whose body has no closing
  brace (it may hold newlines), white space and the closing fence, the result is that
  object, whatever follows the closing fence: the group ends at the first brace that
  closes before a fence. In particular the block
  \<open>```json {"overview":"x","issues":[]} ```\<close> (with newlines inside the fences), between
  a prefix with no backtick and any suffix, gives the overview \<open>x\<close> and no diagnostic.
\<close>

theorem fenced_json_extraction:
  "(1 < length (FindStringSubmatch codeBlockRegex text) \<longrightarrow>
      extractJSON text = FindStringSubmatch codeBlockRegex text ! 1)
   \<and> (CHR ''`'' \<notin> set pre \<and> (label = ''json'' \<or> label = []) \<and> list_all isReSpace ws1
        \<and> list_all isReSpace ws2 \<and> CHR ''}'' \<notin> set body \<longrightarrow>
      extractJSON (pre @ ''```'' @ label @ ws1 @ ''{'' @ body @ ''}'' @ ws2 @ ''```'' @ post) =
        ''{'' @ body @ ''}'')
   \<and> (CHR ''`'' \<notin> set pre \<longrightarrow>
      ParseAIResponse U
        (pre @ ''```json\<newline>{\"overview\":\"x\",\"issues\":[]}\<newline>```'' @ post) =
      Inr \<lparr>Overview = ''x'', Diagnostics = []\<rparr>)"
proof (intro conjI impI)
  assume "1 < length (FindStringSubmatch codeBlockRegex text)"
  then show "extractJSON text = FindStringSubmatch codeBlockRegex text ! 1"
    by (simp add: extractJSON_def)
next
  assume "CHR ''`'' \<notin> set pre \<and> (label = ''json'' \<or> label = []) \<and> list_all isReSpace ws1
        \<and> list_all isReSpace ws2 \<and> CHR ''}'' \<notin> set body"
  then show "extractJSON (pre @ ''```'' @ label @ ws1 @ ''{'' @ body @ ''}'' @ ws2 @ ''```'' @ post) =
        ''{'' @ body @ ''}''"
    by (intro extractJSON_code_block) simp_all
next
  assume "CHR ''`'' \<notin> set pre"
  then show "ParseAIResponse U
        (pre @ ''```json\<newline>{\"overview\":\"x\",\"issues\":[]}\<newline>```'' @ post) =
      Inr \<lparr>Overview = ''x'', Diagnostics = []\<rparr>"
    by (rule ParseAIResponse_fenced_example)
qed

lemma FindStringSubmatch_small_block:
  "FindStringSubmatch codeBlockRegex ''```{}```'' = [''```{}```'', ''{}'']"
  by (simp add: regex_eval codeBlockRegex_def)

theorem fenced_json_extraction_witness:
  "1 < length (FindStringSubmatch codeBlockRegex ''```{}```'')
   \<and> extractJSON ''```{}```'' = ''{}''
   \<and> CHR ''`'' \<notin> set ''Review:\<newline>''
   \<and> list_all isReSpace ''\<newline> ''
   \<and> CHR ''}'' \<notin> set ''\"a\":\<newline>1''
   \<and> extractJSON (''Review:\<newline>'' @ ''```'' @ [] @ ''\<newline> '' @ ''{'' @ ''\"a\":\<newline>1'' @ ''}'' @
         ''\<newline> '' @ ''```'' @ ''Bye {}```'') = ''{'' @ ''\"a\":\<newline>1'' @ ''}''
   \<and> ParseAIResponse id
         (''Review:\<newline>'' @ ''```json\<newline>{\"overview\":\"x\",\"issues\":[]}\<newline>```'' @ ''Bye {}```'') =
       Inr \<lparr>Overview = ''x'', Diagnostics = []\<rparr>"
  using fenced_json_extraction [of "''```{}```''" "''Review:\<newline>''" "[]" "''\<newline> ''" "''\<newline> ''"
      "''\"a\":\<newline>1''" "''Bye {}```''" id]
  by (simp add: FindStringSubmatch_small_block isReSpace_def)

section \<open>Response normalizer: the overview of the fallback parse\<close>

lemma firstParagraph_find:
  "firstParagraph overview lines =
     (case find (\<lambda>line. TrimSpace line \<noteq> [] \<and> \<not> HasPrefix (TrimSpace line) ''#'') lines of
        None \<Rightarrow> overview
      | Some line \<Rightarrow> TrimSpace line)"
  by (induction lines) (simp_all add: Let_def)

lemma firstParagraph_none:
  "\<forall>line \<in> set lines. TrimSpace line = [] \<or> HasPrefix (TrimSpace line) ''#'' \<Longrightarrow>
   firstParagraph overview lines = overview"
  by (induction lines) (auto simp: Let_def)

lemma fallback_no_matches:
  "concat (map matchDiagnostic (FindAllStringSubmatch fileLineRegex text)) = [] \<Longrightarrow>
   parseUnstructuredResponse text =
     Inr \<lparr>Overview = firstParagraph ''AI code review completed'' (Split text (CHR 0x0A)),
          Diagnostics = []\<rparr>"
  by (simp add: parseUnstructuredResponse_def Let_def)

text \<open>
  C8: in the fallback parse, when the scan for the line pattern gives no diagnostic,
  the overview is the first line of the text (the text split at the newlines) that,
  once trimmed, is not empty and does not begin with \<open>#\<close>; the overview is that line
  trimmed. When no line is such (each is empty or a heading once trimmed), and so for
  the empty text, the overview is the sentence \<open>AI code review completed\<close>.
\<close>

theorem fallback_overview:
  "(concat (map matchDiagnostic (FindAllStringSubmatch fileLineRegex text)) = [] \<longrightarrow>
      parseUnstructuredResponse text =
        Inr \<lparr>Overview =
               (case find (\<lambda>line. TrimSpace line \<noteq> [] \<and> \<not> HasPrefix (TrimSpace line) ''#'')
                       (Split text (CHR 0x0A)) of
                  None \<Rightarrow> ''AI code review completed''
                | Some line \<Rightarrow> TrimSpace line),
             Diagnostics = []\<rparr>)
   \<and> (concat (map matchDiagnostic (FindAllStringSubmatch fileLineRegex text)) = []
        \<and> (\<forall>line \<in> set (Split text (CHR 0x0A)).
              TrimSpace line = [] \<or> HasPrefix (TrimSpace line) ''#'') \<longrightarrow>
      parseUnstructuredResponse text =
        Inr \<lparr>Overview = ''AI code review completed'', Diagnostics = []\<rparr>)
   \<and> parseUnstructuredResponse [] =
       Inr \<lparr>Overview = ''AI code review completed'', Diagnostics = []\<rparr>"
proof (intro conjI impI)
  assume "concat (map matchDiagnostic (FindAllStringSubmatch fileLineRegex text)) = []"
  then show "parseUnstructuredResponse text =
        Inr \<lparr>Overview =
               (case find (\<lambda>line. TrimSpace line \<noteq> [] \<and> \<not> HasPrefix (TrimSpace line) ''#'')
                       (Split text (CHR 0x0A)) of
                  None \<Rightarrow> ''AI code review completed''
                | Some line \<Rightarrow> TrimSpace line),
             Diagnostics = []\<rparr>"
    by (simp only: fallback_no_matches firstParagraph_find)
next
  assume "concat (map matchDiagnostic (FindAllStringSubmatch fileLineRegex text)) = []
        \<and> (\<forall>line \<in> set (Split text (CHR 0x0A)).
              TrimSpace line = [] \<or> HasPrefix (TrimSpace line) ''#'')"
  then show "parseUnstructuredResponse text =
        Inr \<lparr>Overview = ''AI code review completed'', Diagnostics = []\<rparr>"
    by (simp add: fallback_no_matches firstParagraph_none)
next
  show "parseUnstructuredResponse [] =
       Inr \<lparr>Overview = ''AI code review completed'', Diagnostics = []\<rparr>"
    by (rule fallback_empty)
qed

lemma scan_prose:
  "concat (map matchDiagnostic
     (FindAllStringSubmatch fileLineRegex ''# Review\<newline>\<newline>  Looks fine \<newline>more'')) = []"
  by (simp add: string_eval regex_eval prog_eval)

lemma scan_headings:
  "concat (map matchDiagnostic
     (FindAllStringSubmatch fileLineRegex ''# Review\<newline>  \<newline> ## End'')) = []"
  by (simp add: string_eval regex_eval prog_eval)

theorem fallback_overview_witness:
  "concat (map matchDiagnostic
     (FindAllStringSubmatch fileLineRegex ''# Review\<newline>\<newline>  Looks fine \<newline>more'')) = []
   \<and> parseUnstructuredResponse ''# Review\<newline>\<newline>  Looks fine \<newline>more'' =
       Inr \<lparr>Overview = ''Looks fine'', Diagnostics = []\<rparr>
   \<and> concat (map matchDiagnostic
       (FindAllStringSubmatch fileLineRegex ''# Review\<newline>  \<newline> ## End'')) = []
   \<and> list_all (\<lambda>line. TrimSpace line = [] \<or> HasPrefix (TrimSpace line) ''#'')
       (Split ''# Review\<newline>  \<newline> ## End'' (CHR 0x0A))
   \<and> parseUnstructuredResponse ''# Review\<newline>  \<newline> ## End'' =
       Inr \<lparr>Overview = ''AI code review completed'', Diagnostics = []\<rparr>"
  using fallback_overview [of "''# Review\<newline>\<newline>  Looks fine \<newline>more''"]
    fallback_overview [of "''# Review\<newline>  \<newline> ## End''"]
    scan_prose scan_headings
  by (simp add: string_eval)

end
